theory Spec2Isabelle
  imports
    Complex_Main
    "HOL-Library.AList"
    "HOL-Library.Sublist"
    "HOL-Library.Char_ord"
    "HOL-Library.List_Lexorder"
    "HOL-Library.Multiset"
begin

section \<open>Values of the program\<close>

text \<open>
  The application (\<^verbatim>\<open>src/app/main.py\<close>) moves JSON-like Python values around: the decoded
  upstream payload, the snapshot dict it caches and the error dict it returns. They are
  modelled by one datatype. A dict is an association list in insertion order (the order is
  what the sorted snapshot is about); a Python dict never holds a key twice, which is the
  predicate \<open>wf_dict\<close> below. Python's \<^verbatim>\<open>None\<close> is \<open>JNull\<close>.

  \<open>JNum\<close> holds the finite numbers, \<^verbatim>\<open>int\<close> and \<^verbatim>\<open>float\<close> alike: Python compares the two
  kinds by their exact value, and every finite float is a rational. Python's decoder
  also accepts the non-finite floats (\<^verbatim>\<open>NaN\<close>, \<^verbatim>\<open>Infinity\<close>, and \<^verbatim>\<open>1e400\<close> read as
  infinity), which are not JSON. They have no value here: with \<^verbatim>\<open>NaN\<close> among its keys
  \<^verbatim>\<open>sorted\<close> gives an order that Python leaves undefined, so the statements about the
  order of the rates speak of finite values only and say so. A \<open>JStr\<close> holds the UTF-8 bytes
  of a Python string, whose lexicographic order is the order of the code points.
\<close>

datatype json =
    JNull
  | JBool bool
  | JNum rat
  | JStr string
  | JList "json list"
  | JDict "(string \<times> json) list"

text \<open>
  The exceptions that the code raises or meets. \<open>RequestException\<close> stands for the whole
  class \<^verbatim>\<open>requests.exceptions.RequestException\<close> (connection errors, timeouts, \<^verbatim>\<open>HTTPError\<close>)
  and carries \<^verbatim>\<open>str(e)\<close>; \<open>ValueError\<close> carries its message; the interpreter's own
  \<open>TypeError\<close> and \<open>AttributeError\<close> carry none, since nothing in the program reads it out of
  them except \<^verbatim>\<open>str(e)\<close> in the health check, which the model keeps as the exception itself.
\<close>

datatype exn =
    RequestException string
  | ValueError string
  | KeyError string
  | TypeError
  | AttributeError

definition wf_dict :: "(string \<times> 'a) list \<Rightarrow> bool" where
  "wf_dict d = distinct (map fst d)"

text \<open>Truth value of an object, as \<^verbatim>\<open>if self.cached_data\<close> tests it.\<close>

fun truthy :: "json \<Rightarrow> bool" where
  "truthy JNull = False"
| "truthy (JBool b) = b"
| "truthy (JNum r) = (r \<noteq> 0)"
| "truthy (JStr s) = (s \<noteq> [])"
| "truthy (JList xs) = (xs \<noteq> [])"
| "truthy (JDict d) = (d \<noteq> [])"

text \<open>
  \<^verbatim>\<open>k in obj\<close> for a string \<open>k\<close>: key membership in a dict, element membership in a list,
  substring test in a string, \<open>TypeError\<close> for the objects that are not containers.
\<close>

fun py_contains :: "string \<Rightarrow> json \<Rightarrow> exn + bool" where
  "py_contains k (JDict d) = Inr (k \<in> set (map fst d))"
| "py_contains k (JList xs) = Inr (JStr k \<in> set xs)"
| "py_contains k (JStr s) = Inr (sublist k s)"
| "py_contains k _ = Inl TypeError"

text \<open>\<^verbatim>\<open>obj[k]\<close> for a string \<open>k\<close>: only a dict can be indexed by a string.\<close>

fun py_getitem :: "json \<Rightarrow> string \<Rightarrow> exn + json" where
  "py_getitem (JDict d) k = (case map_of d k of None \<Rightarrow> Inl (KeyError k) | Some v \<Rightarrow> Inr v)"
| "py_getitem _ k = Inl TypeError"

text \<open>\<^verbatim>\<open>obj.items()\<close>: only a dict has the method.\<close>

fun py_items :: "json \<Rightarrow> exn + (string \<times> json) list" where
  "py_items (JDict d) = Inr d"
| "py_items _ = Inl AttributeError"

text \<open>\<^verbatim>\<open>d.get(k, default)\<close> on a dict.\<close>

definition dict_get :: "(string \<times> json) list \<Rightarrow> string \<Rightarrow> json \<Rightarrow> json" where
  "dict_get d k dflt = (case map_of d k of None \<Rightarrow> dflt | Some v \<Rightarrow> v)"

text \<open>
  \<^verbatim>\<open>dict(pairs)\<close>, and \<^verbatim>\<open>d[k] = v\<close> as its step: a new key goes to the end, a key already
  there keeps its place and takes the new value (\<open>AList.update\<close>).
\<close>

definition py_dict :: "(string \<times> json) list \<Rightarrow> (string \<times> json) list" where
  "py_dict pairs = fold (\<lambda>p d. AList.update (fst p) (snd p) d) pairs []"

section \<open>Sorting as \<^verbatim>\<open>sorted(..., key=..., reverse=True)\<close> does\<close>

text \<open>
  Python orders numbers (\<^verbatim>\<open>bool\<close> counts as 0 and 1) among themselves and strings among
  themselves; \<^verbatim>\<open>None\<close> and dicts are ordered with nothing, not even with themselves, and
  objects of two different kinds are never ordered: \<^verbatim>\<open><\<close> raises \<open>TypeError\<close>.
\<close>

fun num_of :: "json \<Rightarrow> rat option" where
  "num_of (JNum r) = Some r"
| "num_of (JBool b) = Some (if b then 1 else 0)"
| "num_of _ = None"

definition num_key :: "json \<Rightarrow> rat" where
  "num_key j = (case num_of j of Some r \<Rightarrow> r | None \<Rightarrow> 0)"

fun is_str :: "json \<Rightarrow> bool" where
  "is_str (JStr s) = True"
| "is_str _ = False"

fun str_key :: "json \<Rightarrow> string" where
  "str_key (JStr s) = s"
| "str_key _ = []"

text \<open>The keys are computed first, one call of \<open>key\<close> per element, left to right.\<close>

fun key_items :: "('a \<Rightarrow> exn + json) \<Rightarrow> 'a list \<Rightarrow> exn + (json \<times> 'a) list" where
  "key_items key [] = Inr []"
| "key_items key (x # xs) =
     (case key x of
        Inl e \<Rightarrow> Inl e
      | Inr k \<Rightarrow> (case key_items key xs of
                   Inl e \<Rightarrow> Inl e
                 | Inr kxs \<Rightarrow> Inr ((k, x) # kxs)))"

text \<open>
  The sort is stable, and with \<^verbatim>\<open>reverse=True\<close> it is the stable ascending sort of the
  reversed list, reversed again: descending keys, equal keys in their original order.
  A list of at most one element is returned without a comparison. With two or more
  elements every element is compared with another one, so a key that is ordered with
  nothing, or keys of two kinds, raise \<open>TypeError\<close>. Keys that are all lists are compared
  by Python element by element; the model does not follow that comparison and takes the
  \<open>TypeError\<close> branch for them too: no statement below is about an exchange rate that is a
  list.
\<close>

definition py_sorted_reverse :: "('a \<Rightarrow> exn + json) \<Rightarrow> 'a list \<Rightarrow> exn + 'a list" where
  "py_sorted_reverse key xs =
     (case key_items key xs of
        Inl e \<Rightarrow> Inl e
      | Inr kxs \<Rightarrow>
          if length kxs \<le> 1 then Inr (map snd kxs)
          else if list_all (\<lambda>p. num_of (fst p) \<noteq> None) kxs
            then Inr (map snd (rev (sort_key (\<lambda>p. num_key (fst p)) (rev kxs))))
          else if list_all (\<lambda>p. is_str (fst p)) kxs
            then Inr (map snd (rev (sort_key (\<lambda>p. str_key (fst p)) (rev kxs))))
          else Inl TypeError)"

section \<open>\<^verbatim>\<open>CryptoRatesAPI.process_rates_data\<close>\<close>

text \<open>
  One pass of the loop body. \<open>rate_dict\<close> is the dict literal with its four \<^verbatim>\<open>data.get\<close>
  calls, which need \<open>data\<close> to be a dict: any other object has no method \<^verbatim>\<open>get\<close>.
\<close>

definition rate_dict :: "string \<Rightarrow> (string \<times> json) list \<Rightarrow> json" where
  "rate_dict currency d =
     JDict [(''name'', dict_get d ''name'' (JStr currency)),
            (''unit'', dict_get d ''unit'' (JStr ''N/A'')),
            (''value'', dict_get d ''value'' (JNum 0)),
            (''type'', dict_get d ''type'' (JStr ''unknown''))]"

fun rate_entry :: "string \<Rightarrow> json \<Rightarrow> exn + json" where
  "rate_entry currency (JDict d) = Inr (rate_dict currency d)"
| "rate_entry currency _ = Inl AttributeError"

text \<open>The loop \<^verbatim>\<open>for currency, data in raw_data['rates'].items(): rates[currency] = ...\<close>.\<close>

fun build_rates :: "(string \<times> json) list \<Rightarrow> (string \<times> json) list \<Rightarrow> exn + (string \<times> json) list" where
  "build_rates [] rates = Inr rates"
| "build_rates ((currency, data) # rest) rates =
     (case rate_entry currency data of
        Inl e \<Rightarrow> Inl e
      | Inr r \<Rightarrow> build_rates rest (AList.update currency r rates))"

text \<open>The sort key \<^verbatim>\<open>lambda x: x[1]['value']\<close>.\<close>

definition value_key :: "string \<times> json \<Rightarrow> exn + json" where
  "value_key x = py_getitem (snd x) ''value''"

definition missing_rates_msg :: string where
  "missing_rates_msg =
     ''Invalid API response: missing '' @ [CHR 0x27] @ ''rates'' @ [CHR 0x27] @ '' field''"

text \<open>
  \<open>now\<close> is what \<^verbatim>\<open>datetime.now().isoformat()\<close> returns during the call.
\<close>

definition process_rates_data :: "string \<Rightarrow> json \<Rightarrow> exn + json" where
  "process_rates_data now raw_data =
     (case py_contains ''rates'' raw_data of
        Inl e \<Rightarrow> Inl e
      | Inr False \<Rightarrow> Inl (ValueError missing_rates_msg)
      | Inr True \<Rightarrow>
         (case py_getitem raw_data ''rates'' of
            Inl e \<Rightarrow> Inl e
          | Inr r \<Rightarrow>
             (case py_items r of
                Inl e \<Rightarrow> Inl e
              | Inr items \<Rightarrow>
                 (case build_rates items [] of
                    Inl e \<Rightarrow> Inl e
                  | Inr rates \<Rightarrow>
                     (case py_sorted_reverse value_key rates of
                        Inl e \<Rightarrow> Inl e
                      | Inr srt \<Rightarrow>
                         (let sorted_rates = py_dict srt
                          in Inr (JDict [(''rates'', JDict sorted_rates),
                                         (''last_updated'', JStr now),
                                         (''total_currencies'',
                                            JNum (of_nat (length sorted_rates)))])))))))"

section \<open>The upstream call\<close>

text \<open>
  What \<^verbatim>\<open>requests.get\<close> does is the environment's choice: it raises an exception of the
  class \<open>RequestException\<close> (no connection, timeout, ...), or it returns a response.
  Of a response the code uses the status, through \<^verbatim>\<open>raise_for_status()\<close>, and the body,
  through \<^verbatim>\<open>json()\<close>, which returns the decoded value or raises (which exception class a
  body that is not JSON raises depends on the version of \<^verbatim>\<open>requests\<close>, so the response says
  it). \<open>http_error_msg\<close> is the text that \<^verbatim>\<open>raise_for_status\<close> formats for the status.
\<close>

record response =
  status_code :: nat
  http_error_msg :: string
  json_result :: "exn + json"

datatype upstream = Raised string | Returned response

text \<open>\<^verbatim>\<open>raise_for_status\<close> of \<^verbatim>\<open>requests\<close> raises \<^verbatim>\<open>HTTPError\<close> for the statuses 400 to 599.\<close>

definition raise_for_status :: "response \<Rightarrow> exn + unit" where
  "raise_for_status r =
     (if 400 \<le> status_code r \<and> status_code r < 600
      then Inl (RequestException (http_error_msg r)) else Inr ())"

section \<open>\<^verbatim>\<open>CryptoRatesAPI\<close> and the counters\<close>

text \<open>
  The fields of the \<^verbatim>\<open>CryptoRatesAPI\<close> singleton, the Prometheus counters of the module
  (\<^verbatim>\<open>API_CALLS\<close> by status, \<^verbatim>\<open>REQUEST_COUNT\<close> by endpoint) and one observation that is
  not a variable of the program: \<open>requests_sent\<close> counts the calls of \<^verbatim>\<open>requests.get\<close>.
  Times are seconds as \<^verbatim>\<open>time.time()\<close> gives them; the clock readings are finite floats,
  hence rationals, and their difference is taken exactly. The latency histogram
  \<^verbatim>\<open>REQUEST_LATENCY\<close> measures wall-clock time and is left out.
\<close>

record app_state =
  base_url :: string
  timeout :: int
  cache_duration :: int
  last_fetch :: rat
  cached_data :: json
  api_calls_success :: nat
  api_calls_error :: nat
  request_count :: "string \<Rightarrow> nat"
  requests_sent :: nat

text \<open>\<^verbatim>\<open>__init__\<close>, given the values of \<^verbatim>\<open>API_TIMEOUT\<close> and \<^verbatim>\<open>CACHE_DURATION\<close>.\<close>

definition init :: "int \<Rightarrow> int \<Rightarrow> app_state" where
  "init api_timeout duration =
     \<lparr> base_url = ''https://api.coingecko.com/api/v3'',
       timeout = api_timeout,
       cache_duration = duration,
       last_fetch = 0,
       cached_data = JNull,
       api_calls_success = 0,
       api_calls_error = 0,
       request_count = (\<lambda>_. 0),
       requests_sent = 0 \<rparr>"

definition cache_hit :: "rat \<Rightarrow> app_state \<Rightarrow> bool" where
  "cache_hit current_time s =
     (truthy (cached_data s) \<and> current_time - last_fetch s < of_int (cache_duration s))"

text \<open>The body of the \<^verbatim>\<open>try\<close> block.\<close>

definition fetch :: "rat \<Rightarrow> string \<Rightarrow> upstream \<Rightarrow> app_state \<Rightarrow> (exn + json) \<times> app_state" where
  "fetch current_time now up s =
     (let s1 = s\<lparr>requests_sent := requests_sent s + 1\<rparr> in
      case up of
        Raised msg \<Rightarrow> (Inl (RequestException msg), s1)
      | Returned resp \<Rightarrow>
         (case raise_for_status resp of
            Inl e \<Rightarrow> (Inl e, s1)
          | Inr _ \<Rightarrow>
             (case json_result resp of
                Inl e \<Rightarrow> (Inl e, s1)
              | Inr data \<Rightarrow>
                 (case process_rates_data now data of
                    Inl e \<Rightarrow> (Inl e, s1)
                  | Inr snap \<Rightarrow>
                     (let s2 = s1\<lparr>cached_data := snap\<rparr>;
                          s3 = s2\<lparr>last_fetch := current_time\<rparr>;
                          s4 = s3\<lparr>api_calls_success := api_calls_success s3 + 1\<rparr>
                      in (Inr (cached_data s4), s4))))))"

text \<open>
  The whole method: the cache test, the \<^verbatim>\<open>try\<close> block, and the handler
  \<^verbatim>\<open>except requests.exceptions.RequestException\<close>, which no other exception enters.
  The result is \<open>Inr\<close> of the returned dict, or \<open>Inl\<close> of the exception that leaves the
  method.
\<close>

definition get_exchange_rates ::
    "rat \<Rightarrow> string \<Rightarrow> upstream \<Rightarrow> app_state \<Rightarrow> (exn + json) \<times> app_state" where
  "get_exchange_rates current_time now up s =
     (if cache_hit current_time s then (Inr (cached_data s), s)
      else
        (case fetch current_time now up s of
           (Inl (RequestException msg), s1) \<Rightarrow>
             (let s2 = s1\<lparr>api_calls_error := api_calls_error s1 + 1\<rparr> in
              if truthy (cached_data s2) then (Inr (cached_data s2), s2)
              else (Inr (JDict [(''error'', JStr (''Unable to fetch exchange rates: '' @ msg))]),
                    s2))
         | other \<Rightarrow> other))"

section \<open>The endpoints\<close>

text \<open>
  What a view function returns: a rendered template with its context, or a JSON body,
  each with the HTTP status. The body of the failed health check,
  \<^verbatim>\<open>{'status': 'unhealthy', 'error': str(e), 'timestamp': ...}\<close>, keeps the exception \<open>e\<close>
  itself. \<open>Inl\<close> is an exception that leaves the view function.
\<close>

datatype body =
    Template string json
  | Json json
  | Unhealthy exn string

definition count_request :: "string \<Rightarrow> app_state \<Rightarrow> app_state" where
  "count_request endpoint s =
     s\<lparr>request_count := (request_count s)(endpoint := request_count s endpoint + 1)\<rparr>"

definition index ::
    "rat \<Rightarrow> string \<Rightarrow> upstream \<Rightarrow> app_state \<Rightarrow> (exn + body \<times> nat) \<times> app_state" where
  "index current_time now up s =
     (case get_exchange_rates current_time now up (count_request ''/'' s) of
        (Inl e, s1) \<Rightarrow> (Inl e, s1)
      | (Inr data, s1) \<Rightarrow>
         (case py_contains ''error'' data of
            Inl e \<Rightarrow> (Inl e, s1)
          | Inr True \<Rightarrow>
             (case py_getitem data ''error'' of
                Inl e \<Rightarrow> (Inl e, s1)
              | Inr msg \<Rightarrow> (Inr (Template ''error.html'' msg, 500), s1))
          | Inr False \<Rightarrow> (Inr (Template ''index.html'' data, 200), s1)))"

definition api_rates ::
    "rat \<Rightarrow> string \<Rightarrow> upstream \<Rightarrow> app_state \<Rightarrow> (exn + body \<times> nat) \<times> app_state" where
  "api_rates current_time now up s =
     (case get_exchange_rates current_time now up (count_request ''/api/rates'' s) of
        (Inl e, s1) \<Rightarrow> (Inl e, s1)
      | (Inr data, s1) \<Rightarrow> (Inr (Json data, 200), s1))"

text \<open>
  \<open>stamp\<close> is \<^verbatim>\<open>datetime.now().isoformat()\<close> as the health check reads it, \<open>version\<close> the
  value of \<^verbatim>\<open>APP_VERSION\<close>. The handler \<^verbatim>\<open>except Exception\<close> takes every exception.
\<close>

definition health_check ::
    "rat \<Rightarrow> string \<Rightarrow> string \<Rightarrow> string \<Rightarrow> upstream \<Rightarrow> app_state
       \<Rightarrow> (body \<times> nat) \<times> app_state" where
  "health_check current_time now stamp version up s =
     (case get_exchange_rates current_time now up (count_request ''/health'' s) of
        (Inl e, s1) \<Rightarrow> ((Unhealthy e stamp, 500), s1)
      | (Inr test_data, s1) \<Rightarrow>
         (case py_contains ''error'' test_data of
            Inl e \<Rightarrow> ((Unhealthy e stamp, 500), s1)
          | Inr has_error \<Rightarrow>
             ((Json (JDict [(''status'', JStr (if \<not> has_error then ''healthy'' else ''degraded'')),
                            (''timestamp'', JStr stamp),
                            (''version'', JStr version)]), 200), s1)))"

section \<open>Snapshots and the state of the cache\<close>

text \<open>
  A snapshot is a dict with exactly the keys \<^verbatim>\<open>rates\<close>, \<^verbatim>\<open>last_updated\<close> and
  \<^verbatim>\<open>total_currencies\<close>, whose \<^verbatim>\<open>rates\<close> is a dict and whose \<^verbatim>\<open>total_currencies\<close> is the
  number of its entries.
\<close>

definition is_snapshot :: "json \<Rightarrow> bool" where
  "is_snapshot j =
     (case j of
        JDict d \<Rightarrow>
          wf_dict d \<and>
          set (map fst d) = {''rates'', ''last_updated'', ''total_currencies''} \<and>
          (case map_of d ''rates'' of
             Some (JDict r) \<Rightarrow>
               wf_dict r \<and> map_of d ''total_currencies'' = Some (JNum (of_nat (length r)))
           | _ \<Rightarrow> False)
      | _ \<Rightarrow> False)"

definition cache_inv :: "app_state \<Rightarrow> bool" where
  "cache_inv s = (cached_data s = JNull \<or> is_snapshot (cached_data s))"

text \<open>
  A sequence of calls of \<open>get_exchange_rates\<close>, each with its clock readings and its
  upstream, made directly (\<open>None\<close>) or by the view function of an endpoint, which counts
  the request first.
\<close>

fun run_calls :: "(string option \<times> rat \<times> string \<times> upstream) list \<Rightarrow> app_state \<Rightarrow> app_state" where
  "run_calls [] s = s"
| "run_calls ((ep, t, now, up) # cs) s =
     run_calls cs
       (snd (get_exchange_rates t now up
          (case ep of None \<Rightarrow> s | Some endpoint \<Rightarrow> count_request endpoint s)))"

section \<open>Vocabulary of the statements\<close>

text \<open>
  An upstream fetch failure, as the handler of \<open>get_exchange_rates\<close> sees it: an exception
  of the class \<open>RequestException\<close> raised by \<^verbatim>\<open>requests.get\<close> (network error, timeout), by
  \<^verbatim>\<open>raise_for_status\<close> (status 400 to 599) or by \<^verbatim>\<open>response.json()\<close>. \<open>fetch_error\<close> gives its
  \<^verbatim>\<open>str(e)\<close>.
\<close>

fun fetch_error :: "upstream \<Rightarrow> string option" where
  "fetch_error (Raised msg) = Some msg"
| "fetch_error (Returned resp) =
     (case raise_for_status resp of
        Inl (RequestException msg) \<Rightarrow> Some msg
      | Inl _ \<Rightarrow> None
      | Inr _ \<Rightarrow> (case json_result resp of
                   Inl (RequestException msg) \<Rightarrow> Some msg
                 | _ \<Rightarrow> None))"

text \<open>The error dict of \<open>get_exchange_rates\<close>.\<close>

definition error_dict :: "string \<Rightarrow> json" where
  "error_dict msg = JDict [(''error'', JStr (''Unable to fetch exchange rates: '' @ msg))]"

text \<open>An object, as JSON calls a dict.\<close>

fun is_object :: "json \<Rightarrow> bool" where
  "is_object (JDict d) = True"
| "is_object _ = False"

text \<open>
  The payloads of the data model: \<^verbatim>\<open>rates\<close> maps each currency code to an object whose
  \<^verbatim>\<open>value\<close>, when it is there, is a number.
\<close>

fun numeric_entry :: "json \<Rightarrow> bool" where
  "numeric_entry (JDict e) =
     (case map_of e ''value'' of None \<Rightarrow> True | Some v \<Rightarrow> num_of v \<noteq> None)"
| "numeric_entry _ = False"

definition typed_rates :: "(string \<times> json) list \<Rightarrow> bool" where
  "typed_rates items = (wf_dict items \<and> list_all (\<lambda>x. numeric_entry (snd x)) items)"

text \<open>The entry that the loop stores for an item of \<^verbatim>\<open>rates\<close>.\<close>

fun entry_of :: "string \<times> json \<Rightarrow> string \<times> json" where
  "entry_of (currency, JDict d) = (currency, rate_dict currency d)"
| "entry_of (currency, other) = (currency, other)"

text \<open>The key of an element whose key can be computed, and that key as a number.\<close>

definition the_value :: "string \<times> json \<Rightarrow> json" where
  "the_value x = (case value_key x of Inr v \<Rightarrow> v | Inl _ \<Rightarrow> JNull)"

definition rate_of :: "string \<times> json \<Rightarrow> rat" where
  "rate_of x = (case value_key x of Inr v \<Rightarrow> num_key v | Inl _ \<Rightarrow> 0)"

text \<open>The dict that \<open>process_rates_data\<close> returns, given the sorted rates.\<close>

definition snapshot_of :: "(string \<times> json) list \<Rightarrow> string \<Rightarrow> json" where
  "snapshot_of sorted_rates now =
     JDict [(''rates'', JDict sorted_rates),
            (''last_updated'', JStr now),
            (''total_currencies'', JNum (of_nat (length sorted_rates)))]"

text \<open>The body of a health check that got an answer.\<close>

definition health_body :: "string \<Rightarrow> string \<Rightarrow> string \<Rightarrow> body" where
  "health_body status stamp version =
     Json (JDict [(''status'', JStr status), (''timestamp'', JStr stamp), (''version'', JStr version)])"

section \<open>Example values\<close>

text \<open>The payload of the repository's tests (\<^verbatim>\<open>sample_api_response\<close>).\<close>

definition sample_rates :: "(string \<times> json) list" where
  "sample_rates =
     [(''btc'', JDict [(''name'', JStr ''Bitcoin''), (''unit'', JStr ''BTC''),
                       (''value'', JNum 1), (''type'', JStr ''crypto'')]),
      (''eth'', JDict [(''name'', JStr ''Ether''), (''unit'', JStr ''ETH''),
                       (''value'', JNum (66 / 1000)), (''type'', JStr ''crypto'')]),
      (''usd'', JDict [(''name'', JStr ''US Dollar''), (''unit'', JStr ''$''),
                       (''value'', JNum 43000), (''type'', JStr ''fiat'')])]"

definition sample_api_response :: json where
  "sample_api_response = JDict [(''rates'', JDict sample_rates)]"

text \<open>Its rates as the snapshot holds them, and an answer with status 200 that carries it.\<close>

definition sorted_sample_rates :: "(string \<times> json) list" where
  "sorted_sample_rates =
     [(''usd'', JDict [(''name'', JStr ''US Dollar''), (''unit'', JStr ''$''),
                       (''value'', JNum 43000), (''type'', JStr ''fiat'')]),
      (''btc'', JDict [(''name'', JStr ''Bitcoin''), (''unit'', JStr ''BTC''),
                       (''value'', JNum 1), (''type'', JStr ''crypto'')]),
      (''eth'', JDict [(''name'', JStr ''Ether''), (''unit'', JStr ''ETH''),
                       (''value'', JNum (66 / 1000)), (''type'', JStr ''crypto'')])]"

definition sample_response :: response where
  "sample_response =
     \<lparr>status_code = 200, http_error_msg = [], json_result = Inr sample_api_response\<rparr>"

text \<open>
  Rates with a tie and with missing fields: \<^verbatim>\<open>aaa\<close> and \<^verbatim>\<open>ccc\<close> have the value 1,
  \<^verbatim>\<open>ddd\<close> has no field at all.
\<close>

definition tied_rates :: "(string \<times> json) list" where
  "tied_rates =
     [(''aaa'', JDict [(''value'', JNum 1)]),
      (''bbb'', JDict [(''value'', JNum 2), (''name'', JStr ''B'')]),
      (''ccc'', JDict [(''value'', JNum 1)]),
      (''ddd'', JDict [])]"

text \<open>The same rates as the transform orders and completes them.\<close>

definition sorted_tied_rates :: "(string \<times> json) list" where
  "sorted_tied_rates =
     [(''bbb'', JDict [(''name'', JStr ''B''), (''unit'', JStr ''N/A''),
                       (''value'', JNum 2), (''type'', JStr ''unknown'')]),
      (''aaa'', JDict [(''name'', JStr ''aaa''), (''unit'', JStr ''N/A''),
                       (''value'', JNum 1), (''type'', JStr ''unknown'')]),
      (''ccc'', JDict [(''name'', JStr ''ccc''), (''unit'', JStr ''N/A''),
                       (''value'', JNum 1), (''type'', JStr ''unknown'')]),
      (''ddd'', JDict [(''name'', JStr ''ddd''), (''unit'', JStr ''N/A''),
                       (''value'', JNum 0), (''type'', JStr ''unknown'')])]"

text \<open>
  Rates outside the data model: a rate given as a string beside a rate given as a number;
  rates that are bare numbers instead of objects; and two rates given as strings with a
  third entry \<open>c\<close> to choose.
\<close>

definition string_valued_rates :: "(string \<times> json) list" where
  "string_valued_rates =
     [(''btc'', JDict [(''value'', JNum 1)]),
      (''eth'', JDict [(''value'', JStr ''0.066'')])]"

definition bare_number_rates :: "(string \<times> json) list" where
  "bare_number_rates = [(''btc'', JNum 1), (''eth'', JNum (66 / 1000)), (''usd'', JNum 43000)]"

definition lettered_rates :: "json \<Rightarrow> (string \<times> json) list" where
  "lettered_rates c =
     [(''a'', JDict [(''value'', JStr ''x'')]),
      (''b'', JDict [(''value'', JStr ''y'')]),
      (''c'', c)]"

text \<open>
  An answer with status 200 whose JSON body has no \<^verbatim>\<open>rates\<close> field (the body of the
  repository's test \<^verbatim>\<open>test_invalid_api_response\<close>).
\<close>

definition malformed_response :: response where
  "malformed_response =
     \<lparr>status_code = 200, http_error_msg = [],
      json_result = Inr (JDict [(''invalid'', JStr ''response'')])\<rparr>"

text \<open>
  A state for the examples: a snapshot with one rate, fetched at time 1000, with the
  default settings (timeout 10, cache duration 300).
\<close>

definition sample_snapshot :: json where
  "sample_snapshot =
     snapshot_of [(''usd'', rate_dict ''usd'' [(''value'', JNum 43000)])] ''2024-01-01T12:00:00''"

definition warm_state :: app_state where
  "warm_state = (init 10 300)\<lparr>cached_data := sample_snapshot, last_fetch := 1000\<rparr>"

text \<open>The state after a first call at time 1000 has fetched the payload of the tests.\<close>

definition fresh_state :: app_state where
  "fresh_state =
     (init 10 300)\<lparr>requests_sent := 1,
                    cached_data := snapshot_of sorted_sample_rates ''2024-01-01T12:00:00'',
                    last_fetch := 1000, api_calls_success := 1\<rparr>"

section \<open>Dicts and snapshots\<close>

lemma update_fresh: "k \<notin> fst ` set d \<Longrightarrow> AList.update k v d = d @ [(k, v)]"
  by (induction d) auto

lemma fold_update_append:
  "distinct (map fst (acc @ ps)) \<Longrightarrow>
   fold (\<lambda>p d. AList.update (fst p) (snd p) d) ps acc = acc @ ps"
proof (induction ps arbitrary: acc)
  case Nil
  then show ?case by simp
next
  case (Cons p ps)
  have fresh: "fst p \<notin> fst ` set acc" using Cons.prems by auto
  have "distinct (map fst ((acc @ [p]) @ ps))" using Cons.prems by simp
  from Cons.IH[OF this] show ?case
    by (simp add: update_fresh[OF fresh])
qed

lemma py_dict_wf: "wf_dict ps \<Longrightarrow> py_dict ps = ps"
  using fold_update_append[of "[]" ps] by (simp add: py_dict_def wf_dict_def)

lemma fold_update_distinct:
  "distinct (map fst acc) \<Longrightarrow>
   distinct (map fst (fold (\<lambda>p d. AList.update (fst p) (snd p) d) ps acc))"
  by (induction ps arbitrary: acc) (simp_all add: distinct_update)

lemma wf_py_dict: "wf_dict (py_dict ps)"
  using fold_update_distinct[of "[]" ps] by (simp add: py_dict_def wf_dict_def)

lemma is_snapshot_snapshot_of: "wf_dict r \<Longrightarrow> is_snapshot (snapshot_of r now)"
  by (auto simp: is_snapshot_def snapshot_of_def wf_dict_def)

lemma is_snapshot_truthy:
  assumes "is_snapshot j" shows "truthy j"
proof (cases j)
  case (JDict d)
  with assms have "''rates'' \<in> set (map fst d)" by (simp add: is_snapshot_def)
  then have "d \<noteq> []" by auto
  with JDict show ?thesis by simp
qed (use assms in \<open>simp_all add: is_snapshot_def\<close>)

lemma is_snapshot_no_error: "is_snapshot j \<Longrightarrow> py_contains ''error'' j = Inr False"
  by (cases j) (auto simp: is_snapshot_def)

lemma is_snapshot_not_null: "is_snapshot j \<Longrightarrow> j \<noteq> JNull"
  by (auto simp: is_snapshot_def)

lemma process_result:
  "process_rates_data now raw = Inr snap \<Longrightarrow> \<exists>srt. snap = snapshot_of (py_dict srt) now"
  unfolding process_rates_data_def snapshot_of_def
  by (auto split: sum.splits bool.splits simp: Let_def)

lemma process_is_snapshot: "process_rates_data now raw = Inr snap \<Longrightarrow> is_snapshot snap"
  using process_result[of now raw snap] is_snapshot_snapshot_of[OF wf_py_dict] by auto

section \<open>The outcomes of \<open>get_exchange_rates\<close>\<close>

lemma get_hit:
  "cache_hit t s \<Longrightarrow> get_exchange_rates t now up s = (Inr (cached_data s), s)"
  by (simp add: get_exchange_rates_def)

lemma fetch_failure:
  "fetch_error up = Some msg \<Longrightarrow>
   fetch t now up s = (Inl (RequestException msg), s\<lparr>requests_sent := requests_sent s + 1\<rparr>)"
  by (cases up)
     (auto simp: fetch_def Let_def raise_for_status_def split: sum.splits exn.splits if_splits)

lemma get_miss_request_exception:
  "\<not> cache_hit t s \<Longrightarrow> fetch t now up s = (Inl (RequestException msg), s1) \<Longrightarrow>
   get_exchange_rates t now up s =
     (if truthy (cached_data s1) then Inr (cached_data s1) else Inr (error_dict msg),
      s1\<lparr>api_calls_error := api_calls_error s1 + 1\<rparr>)"
  by (simp add: get_exchange_rates_def Let_def error_dict_def)

lemma fetch_success:
  "raise_for_status resp = Inr () \<Longrightarrow> json_result resp = Inr data \<Longrightarrow>
   process_rates_data now data = Inr snap \<Longrightarrow>
   fetch t now (Returned resp) s =
     (Inr snap, s\<lparr>requests_sent := requests_sent s + 1, cached_data := snap, last_fetch := t,
                  api_calls_success := api_calls_success s + 1\<rparr>)"
  by (simp add: fetch_def Let_def)

lemma get_miss_other:
  "\<not> cache_hit t s \<Longrightarrow> fetch t now up s = (r, s1) \<Longrightarrow>
   (\<forall>msg. r \<noteq> Inl (RequestException msg)) \<Longrightarrow>
   get_exchange_rates t now up s = (r, s1)"
  by (cases r; cases "projl r") (simp_all add: get_exchange_rates_def)

lemma fetch_cases:
  "(\<exists>e. fetch t now up s = (Inl e, s\<lparr>requests_sent := requests_sent s + 1\<rparr>)) \<or>
   (\<exists>snap. is_snapshot snap \<and>
      fetch t now up s =
        (Inr snap, s\<lparr>requests_sent := requests_sent s + 1, cached_data := snap, last_fetch := t,
                     api_calls_success := api_calls_success s + 1\<rparr>))"
proof (cases up)
  case (Raised msg)
  then show ?thesis by (simp add: fetch_def)
next
  case (Returned resp)
  show ?thesis
  proof (cases "raise_for_status resp")
    case (Inl e)
    with Returned show ?thesis by (simp add: fetch_def)
  next
    case ok: (Inr u)
    show ?thesis
    proof (cases "json_result resp")
      case (Inl e)
      with Returned ok show ?thesis by (simp add: fetch_def)
    next
      case body: (Inr data)
      show ?thesis
      proof (cases "process_rates_data now data")
        case (Inl e)
        with Returned ok body show ?thesis by (simp add: fetch_def)
      next
        case (Inr snap)
        with Returned ok body process_is_snapshot[OF Inr] show ?thesis
          by (simp add: fetch_def Let_def)
      qed
    qed
  qed
qed

lemma get_miss_cases:
  assumes miss: "\<not> cache_hit t s"
  obtains
    (failed) msg where
      "get_exchange_rates t now up s =
         (if truthy (cached_data s) then Inr (cached_data s) else Inr (error_dict msg),
          s\<lparr>requests_sent := requests_sent s + 1, api_calls_error := api_calls_error s + 1\<rparr>)"
  | (raised) e where "\<forall>msg. e \<noteq> RequestException msg"
      "get_exchange_rates t now up s = (Inl e, s\<lparr>requests_sent := requests_sent s + 1\<rparr>)"
  | (fresh) snap where "is_snapshot snap"
      "get_exchange_rates t now up s =
         (Inr snap, s\<lparr>requests_sent := requests_sent s + 1, cached_data := snap, last_fetch := t,
                      api_calls_success := api_calls_success s + 1\<rparr>)"
proof -
  from fetch_cases[of t now up s] consider
    (err) e where "fetch t now up s = (Inl e, s\<lparr>requests_sent := requests_sent s + 1\<rparr>)"
  | (ok) snap where "is_snapshot snap"
      "fetch t now up s =
        (Inr snap, s\<lparr>requests_sent := requests_sent s + 1, cached_data := snap, last_fetch := t,
                     api_calls_success := api_calls_success s + 1\<rparr>)"
    by blast
  then show thesis
  proof cases
    case err
    show thesis
    proof (cases "\<exists>msg. e = RequestException msg")
      case True
      then obtain msg where e: "e = RequestException msg" ..
      from get_miss_request_exception[OF miss err[unfolded e]]
      show thesis by (intro failed[of msg]) simp
    next
      case False
      then have ne: "\<forall>msg. Inl e \<noteq> (Inl (RequestException msg) :: exn + json)" by simp
      from get_miss_other[OF miss err ne] False show thesis by (intro raised[of e]) simp_all
    qed
  next
    case ok
    have "\<forall>msg. Inr snap \<noteq> (Inl (RequestException msg) :: exn + json)" by simp
    from get_miss_other[OF miss ok(2) this] ok(1) show thesis by (intro fresh[of snap])
  qed
qed

lemma get_cached_data:
  "cached_data (snd (get_exchange_rates t now up s)) = cached_data s \<or>
   is_snapshot (cached_data (snd (get_exchange_rates t now up s)))"
proof (cases "cache_hit t s")
  case True
  then show ?thesis by (simp add: get_hit)
next
  case False
  then show ?thesis
    by (cases rule: get_miss_cases[OF False, where now = now and up = up]) simp_all
qed

lemma get_keeps_snapshot:
  "is_snapshot (cached_data s) \<Longrightarrow>
   is_snapshot (cached_data (snd (get_exchange_rates t now up s)))"
  using get_cached_data[of t now up s] by auto

lemma get_keeps_inv: "cache_inv s \<Longrightarrow> cache_inv (snd (get_exchange_rates t now up s))"
  using get_cached_data[of t now up s] by (auto simp: cache_inv_def)

lemma get_result_shape:
  assumes "cache_inv s" "get_exchange_rates t now up s = (Inr d, s')"
  shows "(is_snapshot d \<and> d = cached_data s') \<or>
         (\<exists>msg. d = error_dict msg \<and> cached_data s = JNull \<and> cached_data s' = JNull)"
proof (cases "cache_hit t s")
  case True
  with assms show ?thesis
    by (auto simp: get_hit cache_inv_def cache_hit_def)
next
  case False
  then show ?thesis
  proof (cases rule: get_miss_cases[of t s now up])
    case (failed msg)
    with assms show ?thesis
      by (auto simp: cache_inv_def is_snapshot_truthy split: if_splits)
  next
    case (raised e)
    with assms show ?thesis by simp
  next
    case (fresh snap)
    with assms show ?thesis by auto
  qed
qed

lemma get_requests_sent:
  "requests_sent (snd (get_exchange_rates t now up s)) =
     (if cache_hit t s then requests_sent s else requests_sent s + 1)"
proof (cases "cache_hit t s")
  case True
  then show ?thesis by (simp add: get_hit)
next
  case False
  then show ?thesis
    by (cases rule: get_miss_cases[OF False, where now = now and up = up]) simp_all
qed

lemma get_cache_duration:
  "cache_duration (snd (get_exchange_rates t now up s)) = cache_duration s"
proof (cases "cache_hit t s")
  case True
  then show ?thesis by (simp add: get_hit)
next
  case False
  then show ?thesis
    by (cases rule: get_miss_cases[OF False, where now = now and up = up]) simp_all
qed

lemma sample_snapshot_is_snapshot: "is_snapshot sample_snapshot"
  unfolding sample_snapshot_def by (rule is_snapshot_snapshot_of) (simp add: wf_dict_def)

lemma warm_state_simps:
  "cached_data warm_state = sample_snapshot" "last_fetch warm_state = 1000"
  "cache_duration warm_state = 300" "requests_sent warm_state = 0"
  "api_calls_error warm_state = 0" "api_calls_success warm_state = 0"
  by (simp_all add: warm_state_def init_def)

lemma returned_snapshot_is_cached:
  assumes call: "get_exchange_rates t now up s = (Inr d, s1)" and snap: "is_snapshot d"
  shows "d = cached_data s1"
proof (cases "cache_hit t s")
  case True
  with call show ?thesis by (auto simp: get_hit)
next
  case False
  then show ?thesis
  proof (cases rule: get_miss_cases[of t s now up])
    case (failed msg)
    with call snap show ?thesis by (auto simp: error_dict_def is_snapshot_def split: if_splits)
  next
    case (raised e)
    with call show ?thesis by simp
  next
    case (fresh snap)
    with call show ?thesis by auto
  qed
qed

lemma process_sample:
  "process_rates_data now sample_api_response =
     Inr (snapshot_of sorted_sample_rates now)"
  by (simp add: sample_api_response_def sample_rates_def sorted_sample_rates_def process_rates_data_def py_sorted_reverse_def
        value_key_def rate_dict_def dict_get_def py_dict_def num_key_def snapshot_of_def
        del: not_None_eq)

lemma sample_response_ok:
  "raise_for_status sample_response = Inr ()" "json_result sample_response = Inr sample_api_response"
  by (simp_all add: sample_response_def raise_for_status_def)

lemma cached_data_count_request [simp]:
  "cached_data (count_request endpoint s) = cached_data s"
  by (simp add: count_request_def)

lemma run_calls_keeps_snapshot:
  "is_snapshot (cached_data s) \<Longrightarrow> is_snapshot (cached_data (run_calls cs s))"
proof (induction cs arbitrary: s)
  case Nil
  then show ?case by simp
next
  case (Cons c cs)
  obtain ep t now up where c: "c = (ep, t, now, up)" by (cases c)
  have "is_snapshot (cached_data (case ep of None \<Rightarrow> s | Some endpoint \<Rightarrow> count_request endpoint s))"
    using Cons.prems by (cases ep) simp_all
  then have "is_snapshot (cached_data (snd (get_exchange_rates t now up
      (case ep of None \<Rightarrow> s | Some endpoint \<Rightarrow> count_request endpoint s))))"
    by (rule get_keeps_snapshot)
  from Cons.IH[OF this] c show ?case by simp
qed

lemma get_snapshot_result:
  assumes "is_snapshot (cached_data s)" "get_exchange_rates t now up s = (Inr d, s')"
  shows "is_snapshot d"
proof -
  from assms(1) have "cache_inv s" by (simp add: cache_inv_def)
  from get_result_shape[OF this assms(2)] assms(1) show ?thesis
    by (auto dest: is_snapshot_not_null)
qed

lemma health_check_snapshot:
  assumes snap: "is_snapshot (cached_data s)"
  shows "fst (health_check t now stamp version up s) = (health_body ''healthy'' stamp version, 200) \<or>
         (\<exists>e. fst (get_exchange_rates t now up (count_request ''/health'' s)) = Inl e \<and>
              fst (health_check t now stamp version up s) = (Unhealthy e stamp, 500))"
proof -
  obtain r s1 where call: "get_exchange_rates t now up (count_request ''/health'' s) = (r, s1)"
    by (cases "get_exchange_rates t now up (count_request ''/health'' s)")
  show ?thesis
  proof (cases r)
    case (Inl e)
    with call show ?thesis by (simp add: health_check_def)
  next
    case (Inr d)
    from snap have "is_snapshot (cached_data (count_request ''/health'' s))" by simp
    from get_snapshot_result[OF this call[unfolded Inr]] have "py_contains ''error'' d = Inr False"
      by (rule is_snapshot_no_error)
    with call Inr show ?thesis by (simp add: health_check_def health_body_def)
  qed
qed

lemma health_check_failure:
  assumes snap: "is_snapshot (cached_data s)" and failure: "fetch_error up = Some msg"
  shows "fst (health_check t now stamp version up s) = (health_body ''healthy'' stamp version, 200)"
proof -
  let ?s0 = "count_request ''/health'' s"
  from snap have snap0: "is_snapshot (cached_data ?s0)" by simp
  have "\<exists>s1. get_exchange_rates t now up ?s0 = (Inr (cached_data ?s0), s1)"
  proof (cases "cache_hit t ?s0")
    case True
    then show ?thesis by (simp add: get_hit)
  next
    case False
    from get_miss_request_exception[OF False fetch_failure[OF failure]] is_snapshot_truthy[OF snap0]
    show ?thesis by simp
  qed
  then obtain s1 where "get_exchange_rates t now up ?s0 = (Inr (cached_data s), s1)" by auto
  with is_snapshot_no_error[OF snap] show ?thesis
    by (simp add: health_check_def health_body_def)
qed

lemma cache_inv_count_request: "cache_inv s \<Longrightarrow> cache_inv (count_request endpoint s)"
  by (simp add: cache_inv_def count_request_def)

section \<open>The transform on the payloads of the data model\<close>

lemma build_rates_dicts:
  "\<forall>x\<in>set items. \<exists>d. snd x = JDict d \<Longrightarrow> distinct (map fst (acc @ items)) \<Longrightarrow>
   build_rates items acc = Inr (acc @ map entry_of items)"
proof (induction items arbitrary: acc)
  case Nil
  then show ?case by simp
next
  case (Cons x items)
  obtain c data where x: "x = (c, data)" by (cases x)
  with Cons.prems(1) obtain d where d: "data = JDict d" by auto
  have fresh: "c \<notin> fst ` set acc" using Cons.prems(2) x by auto
  have "distinct (map fst ((acc @ [(c, rate_dict c d)]) @ items))" using Cons.prems(2) x by simp
  with Cons.IH[of "acc @ [(c, rate_dict c d)]"] Cons.prems(1)
  have "build_rates items (acc @ [(c, rate_dict c d)])
          = Inr ((acc @ [(c, rate_dict c d)]) @ map entry_of items)" by simp
  with x d show ?case by (simp add: update_fresh[OF fresh])
qed

lemma key_items_total:
  "\<forall>x\<in>set xs. key x = Inr (k x) \<Longrightarrow> key_items key xs = Inr (map (\<lambda>x. (k x, x)) xs)"
  by (induction xs) simp_all

lemma insort_key_map:
  "insort_key f (g x) (map g xs) = map g (insort_key (\<lambda>y. f (g y)) x xs)"
  by (induction xs) simp_all

lemma sort_key_map: "sort_key f (map g xs) = map g (sort_key (\<lambda>y. f (g y)) xs)"
  by (induction xs) (simp_all add: insort_key_map)

lemma sort_key_decorated:
  "map snd (rev (sort_key (\<lambda>p. f (fst p)) (rev (map (\<lambda>x. (k x, x)) xs))))
     = rev (sort_key (\<lambda>x. f (k x)) (rev xs))"
proof -
  have "sort_key (\<lambda>p. f (fst p)) (rev (map (\<lambda>x. (k x, x)) xs))
          = map (\<lambda>x. (k x, x)) (sort_key (\<lambda>x. f (k x)) (rev xs))"
    by (simp add: rev_map sort_key_map)
  then show ?thesis by (simp add: rev_map o_def)
qed

lemma rev_sort_short: "length xs \<le> 1 \<Longrightarrow> rev (sort_key f (rev xs)) = xs"
  by (cases xs) simp_all

lemma py_sorted_reverse_numeric:
  assumes num: "\<forall>x\<in>set xs. \<exists>v. value_key x = Inr v \<and> num_of v \<noteq> None"
  shows "py_sorted_reverse value_key xs = Inr (rev (sort_key rate_of (rev xs)))"
proof -
  from num have "\<forall>x\<in>set xs. value_key x = Inr (the_value x)" by (auto simp: the_value_def)
  then have keys: "key_items value_key xs = Inr (map (\<lambda>x. (the_value x, x)) xs)"
    by (rule key_items_total)
  have rate: "(\<lambda>x. num_key (the_value x)) = rate_of"
    by (rule ext) (simp add: rate_of_def the_value_def num_key_def split: sum.splits)
  from num have all: "list_all (\<lambda>p. num_of (fst p) \<noteq> None) (map (\<lambda>x. (the_value x, x)) xs)"
    by (auto simp: list_all_iff the_value_def)
  show ?thesis
  proof (cases "length xs \<le> 1")
    case True
    with keys show ?thesis
      by (simp add: py_sorted_reverse_def rev_sort_short o_def)
  next
    case False
    with keys all sort_key_decorated[of num_key the_value xs] show ?thesis
      by (simp add: py_sorted_reverse_def rate)
  qed
qed

lemma fst_entry_of [simp]: "fst (entry_of x) = fst x"
  by (cases x rule: entry_of.cases) simp_all

lemma map_fst_entry_of [simp]: "map fst (map entry_of items) = map fst items"
  by (induction items) simp_all

lemma numeric_entry_dict: "numeric_entry j \<Longrightarrow> \<exists>d. j = JDict d"
  by (cases j) simp_all

lemma value_key_rate_dict:
  "value_key (c, rate_dict c e) = Inr (dict_get e ''value'' (JNum 0))"
  by (simp add: value_key_def rate_dict_def)

lemma value_key_entry_of:
  assumes "numeric_entry (snd x)"
  shows "\<exists>v. value_key (entry_of x) = Inr v \<and> num_of v \<noteq> None"
proof -
  obtain c data where x: "x = (c, data)" by (cases x)
  with assms obtain e where e: "data = JDict e" using numeric_entry_dict by auto
  from assms x e have "num_of (dict_get e ''value'' (JNum 0)) \<noteq> None"
    by (auto simp: dict_get_def split: option.splits)
  with x e value_key_rate_dict[of c e] show ?thesis by simp
qed

lemma rev_sort_mset: "mset (rev (sort_key f (rev xs))) = mset xs"
  by simp

lemma rev_sort_descending:
  "sorted_wrt (\<lambda>a b. f b \<le> f a) (rev (sort_key f (rev xs)))"
proof -
  have "sorted (map f (sort_key f (rev xs)))" by (rule sorted_sort_key)
  then have "sorted_wrt (\<lambda>a b. f a \<le> f b) (sort_key f (rev xs))"
    by (simp add: sorted_map)
  then show ?thesis by (simp add: sorted_wrt_rev)
qed

lemma rev_sort_stable:
  "filter (\<lambda>x. f x = v) (rev (sort_key f (rev xs))) = filter (\<lambda>x. f x = v) xs"
proof -
  have "filter (\<lambda>x. f x = v) (rev (sort_key f (rev xs)))
          = rev (filter (\<lambda>x. f x = v) (sort_key f (rev xs)))"
    by (simp add: rev_filter)
  also have "\<dots> = rev (filter (\<lambda>x. f x = v) (rev xs))" by (simp only: sort_key_stable)
  also have "\<dots> = filter (\<lambda>x. f x = v) xs" by (simp add: rev_filter)
  finally show ?thesis .
qed

lemma rev_sort_wf: "wf_dict xs \<Longrightarrow> wf_dict (rev (sort_key f (rev xs)))"
proof -
  assume "wf_dict xs"
  have "mset (map fst (rev (sort_key f (rev xs)))) = mset (map fst xs)"
    by (simp only: mset_map rev_sort_mset)
  from mset_eq_imp_distinct_iff[OF this] \<open>wf_dict xs\<close> show ?thesis by (simp add: wf_dict_def)
qed

lemma process_typed:
  assumes rates: "map_of d ''rates'' = Some (JDict items)" and typed: "typed_rates items"
  shows "process_rates_data now (JDict d)
           = Inr (snapshot_of (rev (sort_key rate_of (rev (map entry_of items)))) now)"
proof -
  from rates have has: "py_contains ''rates'' (JDict d) = Inr True"
    by (auto dest: map_of_SomeD intro: rev_image_eqI)
  from typed have wf: "wf_dict items" and num: "\<forall>x\<in>set items. numeric_entry (snd x)"
    by (simp_all add: typed_rates_def list_all_iff)
  from num have dicts: "\<forall>x\<in>set items. \<exists>d. snd x = JDict d" using numeric_entry_dict by blast
  from wf have "distinct (map fst ([] @ items))" by (simp add: wf_dict_def)
  from build_rates_dicts[OF dicts this]
  have built: "build_rates items [] = Inr (map entry_of items)" by simp
  from num have "\<forall>x\<in>set (map entry_of items). \<exists>v. value_key x = Inr v \<and> num_of v \<noteq> None"
    using value_key_entry_of by auto
  from py_sorted_reverse_numeric[OF this]
  have srt: "py_sorted_reverse value_key (map entry_of items)
               = Inr (rev (sort_key rate_of (rev (map entry_of items))))" .
  from wf have "wf_dict (map entry_of items)"
    unfolding wf_dict_def by (simp only: map_fst_entry_of)
  from py_dict_wf[OF rev_sort_wf[OF this]]
  have dict: "py_dict (rev (sort_key rate_of (rev (map entry_of items))))
                = rev (sort_key rate_of (rev (map entry_of items)))" .
  from has rates built srt dict show ?thesis
    by (simp add: process_rates_data_def snapshot_of_def Let_def)
qed

lemma rate_of_rate_dict: "rate_of (c, rate_dict c e) = num_key (dict_get e ''value'' (JNum 0))"
  by (simp add: rate_of_def value_key_rate_dict)

lemma typed_sample_rates: "typed_rates sample_rates"
  by (simp add: typed_rates_def wf_dict_def sample_rates_def)

lemma typed_tied_rates: "typed_rates tied_rates"
  by (simp add: typed_rates_def wf_dict_def tied_rates_def)

lemma process_tied:
  "process_rates_data now (JDict [(''rates'', JDict tied_rates)]) =
     Inr (snapshot_of sorted_tied_rates now)"
  by (simp add: tied_rates_def sorted_tied_rates_def process_rates_data_def py_sorted_reverse_def
        value_key_def rate_dict_def dict_get_def py_dict_def num_key_def snapshot_of_def
        del: not_None_eq)

lemma rate_dict_defaults:
  "rate_dict currency e =
     JDict [(''name'', case map_of e ''name'' of None \<Rightarrow> JStr currency | Some v \<Rightarrow> v),
            (''unit'', case map_of e ''unit'' of None \<Rightarrow> JStr ''N/A'' | Some v \<Rightarrow> v),
            (''value'', case map_of e ''value'' of None \<Rightarrow> JNum 0 | Some v \<Rightarrow> v),
            (''type'', case map_of e ''type'' of None \<Rightarrow> JStr ''unknown'' | Some v \<Rightarrow> v)]"
  by (simp add: rate_dict_def dict_get_def)

lemma first_fetch_sample:
  "get_exchange_rates 1000 ''2024-01-01T12:00:00'' (Returned sample_response) (init 10 300)
     = (Inr (snapshot_of sorted_sample_rates ''2024-01-01T12:00:00''), fresh_state)"
proof -
  have miss: "\<not> cache_hit 1000 (init 10 300)" by (simp add: cache_hit_def init_def)
  have ne: "\<forall>msg. Inr (snapshot_of sorted_sample_rates ''2024-01-01T12:00:00'')
              \<noteq> (Inl (RequestException msg) :: exn + json)" by simp
  from get_miss_other[OF miss fetch_success[OF sample_response_ok process_sample] ne]
  show ?thesis by (simp add: fresh_state_def init_def)
qed

lemma fresh_state_simps:
  "cached_data fresh_state = snapshot_of sorted_sample_rates ''2024-01-01T12:00:00''"
  "last_fetch fresh_state = 1000" "cache_duration fresh_state = 300"
  "requests_sent fresh_state = 1"
  by (simp_all add: fresh_state_def init_def)

section \<open>The claims of the specification\<close>

text \<open>
  C1. The specification says that every failure of a call of \<open>get_exchange_rates\<close> (network
  error, timeout, status outside 2xx, or a malformed body, that is upstream JSON without
  the \<^verbatim>\<open>rates\<close> field) is caught inside the call and turned into the fallback, so that the
  call returns the previous snapshot or an error dict and never raises. For the
  malformed body the code does otherwise: \<open>process_rates_data\<close> raises \<open>ValueError\<close> inside
  the \<^verbatim>\<open>try\<close> block, and the handler takes \<open>RequestException\<close> only. With the upstream
  answering 200 and a body without \<^verbatim>\<open>rates\<close>, the \<open>ValueError\<close> leaves
  \<open>get_exchange_rates\<close>, from the initial state (no snapshot) and from a state that holds
  a stale snapshot alike; no error counter is incremented and nothing is returned.
\<close>

theorem malformed_body_raises:
  "get_exchange_rates 1000 ''2024-01-01T12:00:00'' (Returned malformed_response) (init 10 300)
     = (Inl (ValueError missing_rates_msg), (init 10 300)\<lparr>requests_sent := 1\<rparr>)
   \<and> get_exchange_rates 1300 ''2024-01-01T12:05:00'' (Returned malformed_response) warm_state
     = (Inl (ValueError missing_rates_msg), warm_state\<lparr>requests_sent := 1\<rparr>)
   \<and> is_snapshot (cached_data warm_state)
   \<and> fetch_error (Returned malformed_response) = None"
proof -
  have cold: "get_exchange_rates 1000 ''2024-01-01T12:00:00'' (Returned malformed_response)
      (init 10 300) = (Inl (ValueError missing_rates_msg), (init 10 300)\<lparr>requests_sent := 1\<rparr>)"
    by (simp add: get_exchange_rates_def cache_hit_def init_def fetch_def raise_for_status_def
          process_rates_data_def malformed_response_def Let_def)
  have miss: "\<not> cache_hit 1300 warm_state" by (simp add: cache_hit_def warm_state_simps)
  have "fetch 1300 ''2024-01-01T12:05:00'' (Returned malformed_response) warm_state
          = (Inl (ValueError missing_rates_msg), warm_state\<lparr>requests_sent := 1\<rparr>)"
    by (simp add: fetch_def raise_for_status_def process_rates_data_def malformed_response_def
          warm_state_simps Let_def)
  from get_miss_other[OF miss this]
  have warm: "get_exchange_rates 1300 ''2024-01-01T12:05:00'' (Returned malformed_response)
      warm_state = (Inl (ValueError missing_rates_msg), warm_state\<lparr>requests_sent := 1\<rparr>)"
    by simp
  have "fetch_error (Returned malformed_response) = None"
    by (simp add: raise_for_status_def malformed_response_def)
  with cold warm sample_snapshot_is_snapshot show ?thesis by (simp add: warm_state_simps)
qed

text \<open>
  C2. When a previous snapshot exists and a call that misses the cache meets an upstream
  fetch failure (an exception of the class \<open>RequestException\<close>, see \<open>fetch_error\<close>), the call
  returns the previous snapshot unchanged and leaves \<open>cached_data\<close> and \<open>last_fetch\<close> as they
  were; only the request and the error counter are counted. Hence a call at any later
  time \<open>t2\<close> misses the cache again and sends a new request, whatever its upstream does.
  A snapshot that exists is a truthy object (\<open>is_snapshot_truthy\<close>), which is what the code
  tests.
\<close>

theorem stale_fallback_keeps_snapshot:
  assumes present: "truthy (cached_data s)"
    and miss: "\<not> cache_hit t s"
    and failure: "fetch_error up = Some msg"
    and later: "t \<le> t2"
    and first: "s1 = snd (get_exchange_rates t now up s)"
  shows "get_exchange_rates t now up s =
           (Inr (cached_data s),
            s\<lparr>requests_sent := requests_sent s + 1, api_calls_error := api_calls_error s + 1\<rparr>)
         \<and> cached_data s1 = cached_data s \<and> last_fetch s1 = last_fetch s
         \<and> \<not> cache_hit t2 s1
         \<and> requests_sent (snd (get_exchange_rates t2 now2 up2 s1)) = requests_sent s1 + 1"
proof -
  from get_miss_request_exception[OF miss fetch_failure[OF failure]] present
  have call: "get_exchange_rates t now up s =
           (Inr (cached_data s),
            s\<lparr>requests_sent := requests_sent s + 1, api_calls_error := api_calls_error s + 1\<rparr>)"
    by simp
  with first have s1: "cached_data s1 = cached_data s" "last_fetch s1 = last_fetch s"
      "cache_duration s1 = cache_duration s"
    by simp_all
  from present miss have "of_int (cache_duration s) \<le> t - last_fetch s"
    by (simp add: cache_hit_def)
  with later have "of_int (cache_duration s) \<le> t2 - last_fetch s" by simp
  with s1 have miss2: "\<not> cache_hit t2 s1" by (simp add: cache_hit_def)
  with get_requests_sent[of t2 now2 up2 s1] call s1 show ?thesis by simp
qed

text \<open>The stale state at time 1300, with a timeout upstream; the next call at 1301 sends the second request.\<close>

theorem stale_fallback_witness:
  "truthy (cached_data warm_state) \<and> \<not> cache_hit 1300 warm_state
   \<and> fetch_error (Raised ''read timed out'') = Some ''read timed out''
   \<and> (1300::rat) \<le> 1301
   \<and> get_exchange_rates 1300 ''2024-01-01T12:05:00'' (Raised ''read timed out'') warm_state
       = (Inr sample_snapshot, warm_state\<lparr>requests_sent := 1, api_calls_error := 1\<rparr>)
   \<and> \<not> cache_hit 1301 (warm_state\<lparr>requests_sent := 1, api_calls_error := 1\<rparr>)
   \<and> requests_sent (snd (get_exchange_rates 1301 ''2024-01-01T12:05:01'' (Raised ''read timed out'')
         (warm_state\<lparr>requests_sent := 1, api_calls_error := 1\<rparr>))) = 2"
proof -
  have h1: "truthy (cached_data warm_state)"
    by (simp add: warm_state_simps is_snapshot_truthy[OF sample_snapshot_is_snapshot])
  have h2: "\<not> cache_hit 1300 warm_state" by (simp add: cache_hit_def warm_state_simps)
  have h3: "fetch_error (Raised ''read timed out'') = Some ''read timed out''" by simp
  have h4: "(1300::rat) \<le> 1301" by simp
  note inst = stale_fallback_keeps_snapshot[OF h1 h2 h3 h4 refl,
      of "''2024-01-01T12:05:00''" "''2024-01-01T12:05:01''" "Raised ''read timed out''"]
  from inst have call:
    "get_exchange_rates 1300 ''2024-01-01T12:05:00'' (Raised ''read timed out'') warm_state
       = (Inr sample_snapshot, warm_state\<lparr>requests_sent := 1, api_calls_error := 1\<rparr>)"
    by (simp add: warm_state_simps)
  with inst h1 h2 h3 show ?thesis by (simp add: warm_state_simps)
qed

text \<open>
  C3. When \<open>cached_data\<close> is present (truthy, as the code tests it) and the current time
  minus \<open>last_fetch\<close> is strictly less than \<open>cache_duration\<close>, \<open>get_exchange_rates\<close> returns
  the cached snapshot and the state is unchanged: no request is sent and no counter of
  \<^verbatim>\<open>API_CALLS\<close> is incremented, whatever the upstream would have answered. Hence, when a
  call has returned a snapshot and a second call comes less than \<open>cache_duration\<close> seconds
  after the fetch of that snapshot, the second call returns the same snapshot, sends no
  request, and the two calls together have sent at most one.
\<close>

theorem cache_hit_no_upstream_call:
  "(truthy (cached_data s) \<and> t - last_fetch s < of_int (cache_duration s) \<longrightarrow>
      get_exchange_rates t now up s = (Inr (cached_data s), s))
   \<and>
   (get_exchange_rates t1 now1 up1 s = (Inr d1, s1) \<and> is_snapshot d1 \<and>
    t2 - last_fetch s1 < of_int (cache_duration s1) \<longrightarrow>
      get_exchange_rates t2 now2 up2 s1 = (Inr d1, s1) \<and>
      requests_sent s1 \<le> requests_sent s + 1)"
proof (intro conjI impI)
  assume "truthy (cached_data s) \<and> t - last_fetch s < of_int (cache_duration s)"
  then have "cache_hit t s" by (simp add: cache_hit_def)
  then show "get_exchange_rates t now up s = (Inr (cached_data s), s)" by (rule get_hit)
next
  assume a: "get_exchange_rates t1 now1 up1 s = (Inr d1, s1) \<and> is_snapshot d1 \<and>
    t2 - last_fetch s1 < of_int (cache_duration s1)"
  then have call: "get_exchange_rates t1 now1 up1 s = (Inr d1, s1)" and snap: "is_snapshot d1"
    and fresh: "t2 - last_fetch s1 < of_int (cache_duration s1)" by simp_all
  have d1: "d1 = cached_data s1" by (rule returned_snapshot_is_cached[OF call snap])
  with snap fresh have "cache_hit t2 s1" by (simp add: cache_hit_def is_snapshot_truthy)
  from get_hit[OF this] d1
  show "get_exchange_rates t2 now2 up2 s1 = (Inr d1, s1)" by simp
  from get_requests_sent[of t1 now1 up1 s] call
  show "requests_sent s1 \<le> requests_sent s + 1" by (simp split: if_splits)
qed

text \<open>
  The scenario of the test \<^verbatim>\<open>test_caching_mechanism\<close>: a first call at time 1000 fetches the
  payload, a second call at time 1100 is served from the cache.
\<close>

theorem cache_hit_witness:
  "get_exchange_rates 1000 ''2024-01-01T12:00:00'' (Returned sample_response) (init 10 300)
     = (Inr (snapshot_of sorted_sample_rates ''2024-01-01T12:00:00''), fresh_state)
   \<and> is_snapshot (snapshot_of sorted_sample_rates ''2024-01-01T12:00:00'')
   \<and> truthy (cached_data fresh_state)
   \<and> (1100::rat) - last_fetch fresh_state < of_int (cache_duration fresh_state)
   \<and> get_exchange_rates 1100 ''2024-01-01T12:01:40'' (Raised ''unreachable'') fresh_state
       = (Inr (snapshot_of sorted_sample_rates ''2024-01-01T12:00:00''), fresh_state)
   \<and> requests_sent fresh_state \<le> requests_sent (init 10 300) + 1"
proof -
  have snap: "is_snapshot (snapshot_of sorted_sample_rates ''2024-01-01T12:00:00'')"
    by (rule is_snapshot_snapshot_of) (simp add: wf_dict_def sorted_sample_rates_def)
  have present: "truthy (cached_data fresh_state)"
    by (simp add: fresh_state_simps is_snapshot_truthy[OF snap])
  have fresh: "(1100::rat) - last_fetch fresh_state < of_int (cache_duration fresh_state)"
    by (simp add: fresh_state_simps)
  note inst = cache_hit_no_upstream_call[where s = "init 10 300" and ?t1.0 = 1000
      and ?now1.0 = "''2024-01-01T12:00:00''" and ?up1.0 = "Returned sample_response"
      and ?d1.0 = "snapshot_of sorted_sample_rates ''2024-01-01T12:00:00''"
      and ?s1.0 = fresh_state and ?t2.0 = 1100 and ?now2.0 = "''2024-01-01T12:01:40''"
      and ?up2.0 = "Raised ''unreachable''"]
  from inst first_fetch_sample snap fresh
  have second: "get_exchange_rates 1100 ''2024-01-01T12:01:40'' (Raised ''unreachable'') fresh_state
       = (Inr (snapshot_of sorted_sample_rates ''2024-01-01T12:00:00''), fresh_state)
     \<and> requests_sent fresh_state \<le> requests_sent (init 10 300) + 1"
    by blast
  from first_fetch_sample snap present fresh second show ?thesis by blast
qed

text \<open>
  C4. When no previous snapshot exists (\<open>cached_data\<close> is \<^verbatim>\<open>None\<close>), an upstream fetch failure
  makes \<open>get_exchange_rates\<close> return the dict
  \<^verbatim>\<open>{"error": "Unable to fetch exchange rates: " + str(e)}\<close>: a value, not an exception,
  which has the key \<^verbatim>\<open>error\<close> and is not a snapshot. The request and the error counter are
  counted; the cache stays empty.
\<close>

theorem cold_failure_returns_error_dict:
  assumes none: "cached_data s = JNull" and failure: "fetch_error up = Some msg"
  shows "get_exchange_rates t now up s =
           (Inr (JDict [(''error'', JStr (''Unable to fetch exchange rates: '' @ msg))]),
            s\<lparr>requests_sent := requests_sent s + 1, api_calls_error := api_calls_error s + 1\<rparr>)
         \<and> py_contains ''error'' (JDict [(''error'', JStr (''Unable to fetch exchange rates: '' @ msg))])
             = Inr True
         \<and> \<not> is_snapshot (JDict [(''error'', JStr (''Unable to fetch exchange rates: '' @ msg))])"
proof -
  from none have miss: "\<not> cache_hit t s" by (simp add: cache_hit_def)
  from get_miss_request_exception[OF miss fetch_failure[OF failure]] none
  have "get_exchange_rates t now up s =
           (Inr (JDict [(''error'', JStr (''Unable to fetch exchange rates: '' @ msg))]),
            s\<lparr>requests_sent := requests_sent s + 1, api_calls_error := api_calls_error s + 1\<rparr>)"
    by (simp add: error_dict_def)
  moreover have "\<not> is_snapshot (JDict [(''error'', JStr (''Unable to fetch exchange rates: '' @ msg))])"
    by (simp add: is_snapshot_def)
  ultimately show ?thesis by simp
qed

text \<open>The initial state, with the upstream answering 500.\<close>

theorem cold_failure_witness:
  "cached_data (init 10 300) = JNull
   \<and> fetch_error (Returned \<lparr>status_code = 500, http_error_msg = ''500 Server Error'',
                           json_result = Inr JNull\<rparr>) = Some ''500 Server Error''
   \<and> get_exchange_rates 1000 ''2024-01-01T12:00:00''
        (Returned \<lparr>status_code = 500, http_error_msg = ''500 Server Error'', json_result = Inr JNull\<rparr>)
        (init 10 300)
      = (Inr (JDict [(''error'', JStr ''Unable to fetch exchange rates: 500 Server Error'')]),
         (init 10 300)\<lparr>requests_sent := 1, api_calls_error := 1\<rparr>)"
proof -
  have h1: "cached_data (init 10 300) = JNull" by (simp add: init_def)
  have h2: "fetch_error (Returned \<lparr>status_code = 500, http_error_msg = ''500 Server Error'',
                           json_result = Inr JNull\<rparr>) = Some ''500 Server Error''"
    by (simp add: raise_for_status_def)
  from cold_failure_returns_error_dict[OF h1 h2, of 1000 "''2024-01-01T12:00:00''"] h1 h2
  show ?thesis by (simp add: init_def)
qed

text \<open>
  C5. The specification says that for every raw payload containing a \<^verbatim>\<open>rates\<close> mapping
  \<open>process_rates_data\<close> produces the mapping sorted by value in descending order, ties in
  the order of the upstream. As worded this fails on payloads outside the data model:
  \<^verbatim>\<open>sorted\<close> compares the values with \<^verbatim>\<open><\<close>, and with a rate given as a string beside a
  rate given as a number the comparison raises \<open>TypeError\<close>; and the loop calls
  \<^verbatim>\<open>data.get\<close>, which an entry that is a bare number does not have (\<open>AttributeError\<close>). In
  both cases the transform raises and produces no mapping.
\<close>

theorem unordered_values_counterexample:
  "process_rates_data ''2024-01-01T12:00:00'' (JDict [(''rates'', JDict string_valued_rates)])
     = Inl TypeError
   \<and> process_rates_data ''2024-01-01T12:00:00'' (JDict [(''rates'', JDict bare_number_rates)])
     = Inl AttributeError"
  by (simp add: string_valued_rates_def bare_number_rates_def process_rates_data_def
        py_sorted_reverse_def value_key_def rate_dict_def dict_get_def del: not_None_eq)

text \<open>
  C5, as amended. For every raw payload whose \<^verbatim>\<open>rates\<close> field maps currency codes to objects
  whose \<^verbatim>\<open>value\<close> is a finite number or is missing (which counts as 0), as the data model
  types it, \<open>process_rates_data\<close> returns a snapshot whose rates are the transformed entries
  of the payload, all of them and nothing else, in descending order of their value, with
  the entries of equal value in the order of the upstream (for every value \<open>v\<close>, the
  entries of rate \<open>v\<close> appear in the result as they do in the payload). The rate of an
  entry is the number in its \<^verbatim>\<open>value\<close> field. In particular the payload of the tests
  (btc 1.0, eth 0.066, usd 43000.0) gives the order usd, btc, eth and
  \<^verbatim>\<open>total_currencies\<close> 3.
\<close>

theorem rates_sorted_descending_stable:
  assumes rates: "map_of d ''rates'' = Some (JDict items)" and typed: "typed_rates items"
  shows "(\<exists>sorted_rates.
            process_rates_data now (JDict d) = Inr (snapshot_of sorted_rates now)
            \<and> mset sorted_rates = mset (map entry_of items)
            \<and> sorted_wrt (\<lambda>a b. rate_of b \<le> rate_of a) sorted_rates
            \<and> (\<forall>v. filter (\<lambda>x. rate_of x = v) sorted_rates
                     = filter (\<lambda>x. rate_of x = v) (map entry_of items)))
         \<and> (\<forall>c e. rate_of (c, rate_dict c e) = num_key (dict_get e ''value'' (JNum 0)))
         \<and> process_rates_data now sample_api_response = Inr (snapshot_of sorted_sample_rates now)
         \<and> map fst sorted_sample_rates = [''usd'', ''btc'', ''eth'']
         \<and> py_getitem (snapshot_of sorted_sample_rates now) ''total_currencies'' = Inr (JNum 3)"
proof -
  let ?srt = "rev (sort_key rate_of (rev (map entry_of items)))"
  have "process_rates_data now (JDict d) = Inr (snapshot_of ?srt now)"
    by (rule process_typed[OF rates typed])
  moreover have "mset ?srt = mset (map entry_of items)" by (rule rev_sort_mset)
  moreover have "sorted_wrt (\<lambda>a b. rate_of b \<le> rate_of a) ?srt" by (rule rev_sort_descending)
  moreover have "\<forall>v. filter (\<lambda>x. rate_of x = v) ?srt
                     = filter (\<lambda>x. rate_of x = v) (map entry_of items)"
    by (intro allI rev_sort_stable)
  ultimately have general: "\<exists>sorted_rates.
            process_rates_data now (JDict d) = Inr (snapshot_of sorted_rates now)
            \<and> mset sorted_rates = mset (map entry_of items)
            \<and> sorted_wrt (\<lambda>a b. rate_of b \<le> rate_of a) sorted_rates
            \<and> (\<forall>v. filter (\<lambda>x. rate_of x = v) sorted_rates
                     = filter (\<lambda>x. rate_of x = v) (map entry_of items))"
    by blast
  have keys: "map fst sorted_sample_rates = [''usd'', ''btc'', ''eth'']"
    by (simp add: sorted_sample_rates_def)
  have total: "py_getitem (snapshot_of sorted_sample_rates now) ''total_currencies'' = Inr (JNum 3)"
    by (simp add: snapshot_of_def sorted_sample_rates_def)
  from general rate_of_rate_dict process_sample[of now] keys total show ?thesis by blast
qed

text \<open>A payload with a tie and with missing fields: the result is bbb, aaa, ccc, ddd.\<close>

theorem rates_sorted_witness:
  "map_of [(''rates'', JDict tied_rates)] ''rates'' = Some (JDict tied_rates)
   \<and> typed_rates tied_rates
   \<and> (\<exists>sorted_rates.
         process_rates_data ''2024-01-01T12:00:00'' (JDict [(''rates'', JDict tied_rates)])
           = Inr (snapshot_of sorted_rates ''2024-01-01T12:00:00'')
         \<and> mset sorted_rates = mset (map entry_of tied_rates)
         \<and> sorted_wrt (\<lambda>a b. rate_of b \<le> rate_of a) sorted_rates
         \<and> (\<forall>v. filter (\<lambda>x. rate_of x = v) sorted_rates
                  = filter (\<lambda>x. rate_of x = v) (map entry_of tied_rates)))
   \<and> process_rates_data ''2024-01-01T12:00:00'' (JDict [(''rates'', JDict tied_rates)])
       = Inr (snapshot_of sorted_tied_rates ''2024-01-01T12:00:00'')
   \<and> map fst sorted_tied_rates = [''bbb'', ''aaa'', ''ccc'', ''ddd'']"
proof -
  have h1: "map_of [(''rates'', JDict tied_rates)] ''rates'' = Some (JDict tied_rates)" by simp
  note inst = rates_sorted_descending_stable[OF h1 typed_tied_rates, of "''2024-01-01T12:00:00''"]
  have keys: "map fst sorted_tied_rates = [''bbb'', ''aaa'', ''ccc'', ''ddd'']"
    by (simp add: sorted_tied_rates_def)
  from inst h1 typed_tied_rates process_tied[of "''2024-01-01T12:00:00''"] keys
  show ?thesis by blast
qed

text \<open>
  C6. The specification says that for every entry of \<^verbatim>\<open>rates\<close> the defaults are substituted
  for the missing fields without raising, and that a missing nested field never aborts
  the whole transform. As worded this fails outside the data model. With two rates given
  as strings and a third entry without \<^verbatim>\<open>value\<close>, the default 0 of the missing field meets
  the strings in \<^verbatim>\<open>sorted\<close> and the transform raises \<open>TypeError\<close>, while the same payload
  with a string in the place of the missing field is transformed; and an entry that is
  not an object (here \<^verbatim>\<open>null\<close>) has no \<^verbatim>\<open>get\<close> and raises \<open>AttributeError\<close>.
\<close>

theorem missing_value_aborts_counterexample:
  "process_rates_data ''2024-01-01T12:00:00'' (JDict [(''rates'', JDict (lettered_rates (JDict [])))])
     = Inl TypeError
   \<and> process_rates_data ''2024-01-01T12:00:00''
       (JDict [(''rates'', JDict (lettered_rates (JDict [(''value'', JStr ''z'')])))])
     = Inr (snapshot_of
         [(''c'', rate_dict ''c'' [(''value'', JStr ''z'')]),
          (''b'', rate_dict ''b'' [(''value'', JStr ''y'')]),
          (''a'', rate_dict ''a'' [(''value'', JStr ''x'')])] ''2024-01-01T12:00:00'')
   \<and> process_rates_data ''2024-01-01T12:00:00'' (JDict [(''rates'', JDict (lettered_rates JNull))])
     = Inl AttributeError"
  by (simp add: lettered_rates_def process_rates_data_def
        py_sorted_reverse_def value_key_def rate_dict_def dict_get_def py_dict_def snapshot_of_def
        del: not_None_eq)

text \<open>
  C6, as amended. For every entry of \<^verbatim>\<open>rates\<close> that is an object, the loop body does not
  raise and builds the dict with \<^verbatim>\<open>name\<close> (default: the currency code), \<^verbatim>\<open>unit\<close> (default
  \<^verbatim>\<open>"N/A"\<close>), \<^verbatim>\<open>value\<close> (default 0) and \<^verbatim>\<open>type\<close> (default \<^verbatim>\<open>"unknown"\<close>), each field
  taken from the entry when it is there; the loop over a \<^verbatim>\<open>rates\<close> mapping of objects
  returns the dict of these entries, whatever fields are missing. On a payload of the
  data model (objects whose \<^verbatim>\<open>value\<close>, when present, is a finite number) the whole
  transform returns a snapshot with as many rates as the payload has entries, in which
  the currency maps to that dict: there a missing field aborts nothing. An entry
  \<^verbatim>\<open>{"value": 5}\<close> becomes \<^verbatim>\<open>{name: <its code>, unit: "N/A", value: 5, type: "unknown"}\<close>.
\<close>

theorem missing_fields_take_defaults:
  assumes rates: "map_of d ''rates'' = Some (JDict items)" and typed: "typed_rates items"
    and entry: "(currency, JDict e) \<in> set items"
  shows "rate_entry currency (JDict e) =
           Inr (JDict [(''name'', case map_of e ''name'' of None \<Rightarrow> JStr currency | Some v \<Rightarrow> v),
                       (''unit'', case map_of e ''unit'' of None \<Rightarrow> JStr ''N/A'' | Some v \<Rightarrow> v),
                       (''value'', case map_of e ''value'' of None \<Rightarrow> JNum 0 | Some v \<Rightarrow> v),
                       (''type'', case map_of e ''type'' of None \<Rightarrow> JStr ''unknown'' | Some v \<Rightarrow> v)])
     \<and> (\<exists>sorted_rates.
           process_rates_data now (JDict d) = Inr (snapshot_of sorted_rates now)
           \<and> length sorted_rates = length items
           \<and> map_of sorted_rates currency =
               Some (JDict [(''name'', case map_of e ''name'' of None \<Rightarrow> JStr currency | Some v \<Rightarrow> v),
                            (''unit'', case map_of e ''unit'' of None \<Rightarrow> JStr ''N/A'' | Some v \<Rightarrow> v),
                            (''value'', case map_of e ''value'' of None \<Rightarrow> JNum 0 | Some v \<Rightarrow> v),
                            (''type'', case map_of e ''type'' of None \<Rightarrow> JStr ''unknown'' | Some v \<Rightarrow> v)]))
     \<and> rate_entry currency (JDict [(''value'', JNum 5)]) =
           Inr (JDict [(''name'', JStr currency), (''unit'', JStr ''N/A''),
                       (''value'', JNum 5), (''type'', JStr ''unknown'')])
     \<and> (wf_dict entries \<and> list_all (\<lambda>x. is_object (snd x)) entries \<longrightarrow>
           build_rates entries [] = Inr (map entry_of entries))"
proof -
  let ?srt = "rev (sort_key rate_of (rev (map entry_of items)))"
  have one: "rate_entry currency (JDict e) = Inr (rate_dict currency e)" by simp
  have whole: "process_rates_data now (JDict d) = Inr (snapshot_of ?srt now)"
    by (rule process_typed[OF rates typed])
  have len: "length ?srt = length items" by simp
  from typed have "wf_dict (map entry_of items)"
    unfolding wf_dict_def typed_rates_def by (simp only: map_fst_entry_of)
  then have "wf_dict ?srt" by (rule rev_sort_wf)
  then have dist: "distinct (map fst ?srt)" by (simp add: wf_dict_def)
  from entry have "(currency, rate_dict currency e) \<in> set (map entry_of items)" by force
  then have "(currency, rate_dict currency e) \<in> set ?srt" by simp
  from map_of_is_SomeI[OF dist this]
  have look: "map_of ?srt currency = Some (rate_dict currency e)" .
  have five: "rate_entry currency (JDict [(''value'', JNum 5)]) =
           Inr (JDict [(''name'', JStr currency), (''unit'', JStr ''N/A''),
                       (''value'', JNum 5), (''type'', JStr ''unknown'')])"
    by (simp add: rate_dict_def dict_get_def)
  have loop: "wf_dict entries \<and> list_all (\<lambda>x. is_object (snd x)) entries \<longrightarrow>
           build_rates entries [] = Inr (map entry_of entries)"
  proof
    assume a: "wf_dict entries \<and> list_all (\<lambda>x. is_object (snd x)) entries"
    then have objs: "\<forall>x\<in>set entries. \<exists>d. snd x = JDict d"
      by (auto simp: list_all_iff elim: is_object.elims)
    from a have "distinct (map fst ([] @ entries))" by (simp add: wf_dict_def)
    from build_rates_dicts[OF objs this] show "build_rates entries [] = Inr (map entry_of entries)"
      by simp
  qed
  from one whole len look five loop show ?thesis
    unfolding rate_dict_defaults[symmetric] by blast
qed

text \<open>
  The entry \<^verbatim>\<open>ddd\<close> of the payload with a tie, which has no field at all; and the loop on
  the payload of strings with an empty third entry, which it completes.
\<close>

theorem missing_fields_witness:
  "map_of [(''rates'', JDict tied_rates)] ''rates'' = Some (JDict tied_rates)
   \<and> typed_rates tied_rates
   \<and> (''ddd'', JDict []) \<in> set tied_rates
   \<and> rate_entry ''ddd'' (JDict []) =
       Inr (JDict [(''name'', JStr ''ddd''), (''unit'', JStr ''N/A''),
                   (''value'', JNum 0), (''type'', JStr ''unknown'')])
   \<and> (\<exists>sorted_rates.
         process_rates_data ''2024-01-01T12:00:00'' (JDict [(''rates'', JDict tied_rates)])
           = Inr (snapshot_of sorted_rates ''2024-01-01T12:00:00'')
         \<and> length sorted_rates = length tied_rates
         \<and> map_of sorted_rates ''ddd'' =
             Some (JDict [(''name'', JStr ''ddd''), (''unit'', JStr ''N/A''),
                          (''value'', JNum 0), (''type'', JStr ''unknown'')]))
   \<and> wf_dict (lettered_rates (JDict []))
   \<and> list_all (\<lambda>x. is_object (snd x)) (lettered_rates (JDict []))
   \<and> build_rates (lettered_rates (JDict [])) [] = Inr (map entry_of (lettered_rates (JDict [])))"
proof -
  have h1: "map_of [(''rates'', JDict tied_rates)] ''rates'' = Some (JDict tied_rates)" by simp
  have h3: "(''ddd'', JDict []) \<in> set tied_rates" by (simp add: tied_rates_def)
  have h4: "wf_dict (lettered_rates (JDict []))"
    "list_all (\<lambda>x. is_object (snd x)) (lettered_rates (JDict []))"
    by (simp_all add: lettered_rates_def wf_dict_def)
  note inst = missing_fields_take_defaults[OF h1 typed_tied_rates h3,
      of "''2024-01-01T12:00:00''" "lettered_rates (JDict [])"]
  from inst h4 have loop:
    "build_rates (lettered_rates (JDict [])) [] = Inr (map entry_of (lettered_rates (JDict [])))"
    by blast
  from inst h1 typed_tied_rates h3 h4 loop show ?thesis by simp
qed

text \<open>
  C7. A call that misses the cache and whose fetch succeeds (\<^verbatim>\<open>requests.get\<close> returns, the
  status passes \<^verbatim>\<open>raise_for_status\<close>, the body decodes and \<open>process_rates_data\<close> returns
  \<open>snap\<close>) overwrites \<open>cached_data\<close> with \<open>snap\<close>, sets \<open>last_fetch\<close> to the current time,
  increments the success counter of \<^verbatim>\<open>API_CALLS\<close> and returns \<open>snap\<close>, whose
  \<^verbatim>\<open>last_updated\<close> is the time of this call. Consequently, once \<open>cache_duration\<close> seconds
  have passed since \<open>last_fetch\<close>, a call misses the cache and sends a new request.
\<close>

theorem successful_fetch_refreshes_cache:
  "(\<not> cache_hit t s \<and> raise_for_status resp = Inr () \<and> json_result resp = Inr data \<and>
    process_rates_data now data = Inr snap \<longrightarrow>
      get_exchange_rates t now (Returned resp) s =
        (Inr snap, s\<lparr>requests_sent := requests_sent s + 1, cached_data := snap, last_fetch := t,
                     api_calls_success := api_calls_success s + 1\<rparr>)
      \<and> is_snapshot snap
      \<and> py_getitem snap ''last_updated'' = Inr (JStr now))
   \<and>
   (of_int (cache_duration s) \<le> t - last_fetch s \<longrightarrow>
      \<not> cache_hit t s \<and>
      requests_sent (snd (get_exchange_rates t now up s)) = requests_sent s + 1)"
proof (intro conjI impI)
  assume a: "\<not> cache_hit t s \<and> raise_for_status resp = Inr () \<and> json_result resp = Inr data \<and>
    process_rates_data now data = Inr snap"
  then have miss: "\<not> cache_hit t s" and status: "raise_for_status resp = Inr ()"
    and body: "json_result resp = Inr data" and transform: "process_rates_data now data = Inr snap"
    by simp_all
  have ne: "\<forall>msg. Inr snap \<noteq> (Inl (RequestException msg) :: exn + json)" by simp
  from get_miss_other[OF miss fetch_success[OF status body transform] ne]
  show "get_exchange_rates t now (Returned resp) s =
        (Inr snap, s\<lparr>requests_sent := requests_sent s + 1, cached_data := snap, last_fetch := t,
                     api_calls_success := api_calls_success s + 1\<rparr>)" .
  from transform show "is_snapshot snap" by (rule process_is_snapshot)
  from process_result[OF transform] obtain srt where "snap = snapshot_of (py_dict srt) now" ..
  then show "py_getitem snap ''last_updated'' = Inr (JStr now)" by (simp add: snapshot_of_def)
next
  assume elapsed: "of_int (cache_duration s) \<le> t - last_fetch s"
  then show miss: "\<not> cache_hit t s" by (simp add: cache_hit_def)
  with get_requests_sent[of t now up s]
  show "requests_sent (snd (get_exchange_rates t now up s)) = requests_sent s + 1" by simp
qed

text \<open>The stale state at time 1300, with the upstream answering the payload of the tests.\<close>

theorem successful_fetch_witness:
  "\<not> cache_hit 1300 warm_state
   \<and> raise_for_status sample_response = Inr ()
   \<and> json_result sample_response = Inr sample_api_response
   \<and> process_rates_data ''2024-01-01T12:05:00'' sample_api_response
       = Inr (snapshot_of sorted_sample_rates ''2024-01-01T12:05:00'')
   \<and> get_exchange_rates 1300 ''2024-01-01T12:05:00'' (Returned sample_response) warm_state
       = (Inr (snapshot_of sorted_sample_rates ''2024-01-01T12:05:00''),
          warm_state\<lparr>requests_sent := 1,
                       cached_data := snapshot_of sorted_sample_rates ''2024-01-01T12:05:00'',
                       last_fetch := 1300, api_calls_success := 1\<rparr>)
   \<and> py_getitem (snapshot_of sorted_sample_rates ''2024-01-01T12:05:00'') ''last_updated''
       = Inr (JStr ''2024-01-01T12:05:00'')
   \<and> of_int (cache_duration warm_state) \<le> (1300::rat) - last_fetch warm_state"
proof -
  have h1: "\<not> cache_hit 1300 warm_state" by (simp add: cache_hit_def warm_state_simps)
  have h5: "of_int (cache_duration warm_state) \<le> (1300::rat) - last_fetch warm_state"
    by (simp add: warm_state_simps)
  note inst = successful_fetch_refreshes_cache[of 1300 warm_state sample_response
      sample_api_response "''2024-01-01T12:05:00''"
      "snapshot_of sorted_sample_rates ''2024-01-01T12:05:00''" "Returned sample_response"]
  from inst h1 sample_response_ok process_sample[of "''2024-01-01T12:05:00''"] h5
  show ?thesis by (simp add: warm_state_simps)
qed

text \<open>
  C8. Whatever \<open>get_exchange_rates\<close> returns, \<^verbatim>\<open>/api/rates\<close> answers 200 with that value
  as its JSON body, an error dict included. In a state of the program (\<open>cache_inv\<close>) the
  returned value is a dict, so the test \<^verbatim>\<open>'error' in data\<close> of \<^verbatim>\<open>/\<close> is decided: the
  endpoint renders \<^verbatim>\<open>error.html\<close> with status 500 when the value has the key \<^verbatim>\<open>error\<close>,
  and \<^verbatim>\<open>index.html\<close> with status 200 otherwise.
\<close>

theorem endpoint_status_codes:
  assumes inv: "cache_inv s"
  shows "(get_exchange_rates t now up (count_request ''/api/rates'' s) = (Inr d, s1) \<longrightarrow>
           api_rates t now up s = (Inr (Json d, 200), s1))
       \<and> (get_exchange_rates t now up (count_request ''/'' s) = (Inr d, s1) \<longrightarrow>
           (py_contains ''error'' d = Inr True \<or> py_contains ''error'' d = Inr False) \<and>
           (py_contains ''error'' d = Inr True \<longrightarrow>
              (\<exists>msg. index t now up s = (Inr (Template ''error.html'' msg, 500), s1))) \<and>
           (py_contains ''error'' d = Inr False \<longrightarrow>
              index t now up s = (Inr (Template ''index.html'' d, 200), s1)))"
proof (intro conjI impI)
  assume "get_exchange_rates t now up (count_request ''/api/rates'' s) = (Inr d, s1)"
  then show "api_rates t now up s = (Inr (Json d, 200), s1)" by (simp add: api_rates_def)
next
  assume call: "get_exchange_rates t now up (count_request ''/'' s) = (Inr d, s1)"
  from get_result_shape[OF cache_inv_count_request[OF inv] call]
  show "py_contains ''error'' d = Inr True \<or> py_contains ''error'' d = Inr False"
    by (auto simp: is_snapshot_no_error error_dict_def)
next
  assume call: "get_exchange_rates t now up (count_request ''/'' s) = (Inr d, s1)"
    and err: "py_contains ''error'' d = Inr True"
  from get_result_shape[OF cache_inv_count_request[OF inv] call] err
  obtain msg where "d = error_dict msg" by (auto simp: is_snapshot_no_error)
  with call err show "\<exists>msg. index t now up s = (Inr (Template ''error.html'' msg, 500), s1)"
    by (simp add: index_def error_dict_def)
next
  assume call: "get_exchange_rates t now up (count_request ''/'' s) = (Inr d, s1)"
    and ok: "py_contains ''error'' d = Inr False"
  then show "index t now up s = (Inr (Template ''index.html'' d, 200), s1)"
    by (simp add: index_def)
qed

text \<open>The initial state with a timeout upstream (error dict), and the fresh state (snapshot).\<close>

theorem endpoint_status_codes_witness:
  "cache_inv (init 10 300)
   \<and> get_exchange_rates 1000 ''2024-01-01T12:00:00'' (Raised ''read timed out'')
        (count_request ''/api/rates'' (init 10 300))
      = (Inr (error_dict ''read timed out''),
         (count_request ''/api/rates'' (init 10 300))\<lparr>requests_sent := 1, api_calls_error := 1\<rparr>)
   \<and> api_rates 1000 ''2024-01-01T12:00:00'' (Raised ''read timed out'') (init 10 300)
      = (Inr (Json (error_dict ''read timed out''), 200),
         (count_request ''/api/rates'' (init 10 300))\<lparr>requests_sent := 1, api_calls_error := 1\<rparr>)
   \<and> py_contains ''error'' (error_dict ''read timed out'') = Inr True
   \<and> (\<exists>msg. index 1000 ''2024-01-01T12:00:00'' (Raised ''read timed out'') (init 10 300)
          = (Inr (Template ''error.html'' msg, 500),
             (count_request ''/'' (init 10 300))\<lparr>requests_sent := 1, api_calls_error := 1\<rparr>))
   \<and> cache_inv warm_state
   \<and> py_contains ''error'' sample_snapshot = Inr False
   \<and> index 1100 ''2024-01-01T12:01:40'' (Raised ''read timed out'') warm_state
      = (Inr (Template ''index.html'' sample_snapshot, 200), count_request ''/'' warm_state)"
proof -
  have inv: "cache_inv (init 10 300)" by (simp add: cache_inv_def init_def)
  have failure: "fetch_error (Raised ''read timed out'') = Some ''read timed out''" by simp
  have cold: "get_exchange_rates 1000 ''2024-01-01T12:00:00'' (Raised ''read timed out'')
        (count_request ep (init 10 300))
      = (Inr (error_dict ''read timed out''),
         (count_request ep (init 10 300))\<lparr>requests_sent := 1, api_calls_error := 1\<rparr>)" for ep
  proof -
    have miss: "\<not> cache_hit 1000 (count_request ep (init 10 300))"
      by (simp add: cache_hit_def init_def)
    from get_miss_request_exception[OF miss fetch_failure[OF failure]]
    show ?thesis by (simp add: init_def count_request_def)
  qed
  have err: "py_contains ''error'' (error_dict ''read timed out'') = Inr True"
    by (simp add: error_dict_def)
  note inst1 = endpoint_status_codes[OF inv, of 1000 "''2024-01-01T12:00:00''"
      "Raised ''read timed out''" "error_dict ''read timed out''"]
  from inst1[of "(count_request ''/api/rates'' (init 10 300))\<lparr>requests_sent := 1, api_calls_error := 1\<rparr>"]
    cold[of "''/api/rates''"]
  have api: "api_rates 1000 ''2024-01-01T12:00:00'' (Raised ''read timed out'') (init 10 300)
      = (Inr (Json (error_dict ''read timed out''), 200),
         (count_request ''/api/rates'' (init 10 300))\<lparr>requests_sent := 1, api_calls_error := 1\<rparr>)"
    by blast
  from inst1[of "(count_request ''/'' (init 10 300))\<lparr>requests_sent := 1, api_calls_error := 1\<rparr>"]
    cold[of "''/''"] err
  have idx: "\<exists>msg. index 1000 ''2024-01-01T12:00:00'' (Raised ''read timed out'') (init 10 300)
          = (Inr (Template ''error.html'' msg, 500),
             (count_request ''/'' (init 10 300))\<lparr>requests_sent := 1, api_calls_error := 1\<rparr>)"
    by blast
  have winv: "cache_inv warm_state"
    by (simp add: cache_inv_def warm_state_simps sample_snapshot_is_snapshot)
  have ok: "py_contains ''error'' sample_snapshot = Inr False"
    by (rule is_snapshot_no_error[OF sample_snapshot_is_snapshot])
  have hit: "cache_hit 1100 (count_request ''/'' warm_state)"
    by (simp add: cache_hit_def count_request_def warm_state_simps
          is_snapshot_truthy[OF sample_snapshot_is_snapshot])
  from get_hit[OF hit] have warm:
    "get_exchange_rates 1100 ''2024-01-01T12:01:40'' (Raised ''read timed out'')
       (count_request ''/'' warm_state) = (Inr sample_snapshot, count_request ''/'' warm_state)"
    by (simp add: warm_state_simps)
  from endpoint_status_codes[OF winv, of 1100 "''2024-01-01T12:01:40''"
      "Raised ''read timed out''" sample_snapshot "count_request ''/'' warm_state"] warm ok
  have idx2: "index 1100 ''2024-01-01T12:01:40'' (Raised ''read timed out'') warm_state
      = (Inr (Template ''index.html'' sample_snapshot, 200), count_request ''/'' warm_state)"
    by blast
  from inv cold[of "''/api/rates''"] api err idx winv ok idx2 show ?thesis by blast
qed

text \<open>
  C9. The invariant \<open>cache_inv\<close>: \<open>cached_data\<close> is \<^verbatim>\<open>None\<close> or a snapshot. It holds
  initially and every call of \<open>get_exchange_rates\<close> keeps it, whether the call returns or
  raises. Spelled out, a \<open>cached_data\<close> that is not \<^verbatim>\<open>None\<close> is a dict with exactly the keys
  \<^verbatim>\<open>rates\<close>, \<^verbatim>\<open>last_updated\<close> and \<^verbatim>\<open>total_currencies\<close>, without the key \<^verbatim>\<open>error\<close>, whose
  \<^verbatim>\<open>rates\<close> is a dict and whose \<^verbatim>\<open>total_currencies\<close> is the number of its entries.
\<close>

theorem snapshot_invariant:
  "cache_inv (init api_timeout duration)
   \<and> (cache_inv s \<longrightarrow> cache_inv (snd (get_exchange_rates t now up s)))
   \<and> (cache_inv s \<and> cached_data s \<noteq> JNull \<longrightarrow>
        (\<exists>d r. cached_data s = JDict d \<and> distinct (map fst d) \<and>
           set (map fst d) = {''rates'', ''last_updated'', ''total_currencies''} \<and>
           ''error'' \<notin> set (map fst d) \<and>
           map_of d ''rates'' = Some (JDict r) \<and> distinct (map fst r) \<and>
           map_of d ''total_currencies'' = Some (JNum (of_nat (length r)))))"
proof (intro conjI impI)
  show "cache_inv (init api_timeout duration)" by (simp add: cache_inv_def init_def)
next
  assume "cache_inv s"
  then show "cache_inv (snd (get_exchange_rates t now up s))" by (rule get_keeps_inv)
next
  assume "cache_inv s \<and> cached_data s \<noteq> JNull"
  then have snap: "is_snapshot (cached_data s)" by (auto simp: cache_inv_def)
  then obtain d where d: "cached_data s = JDict d" by (cases "cached_data s") (simp_all add: is_snapshot_def)
  with snap have wf: "distinct (map fst d)"
    and keys: "set (map fst d) = {''rates'', ''last_updated'', ''total_currencies''}"
    and rest: "(case map_of d ''rates'' of
             Some (JDict r) \<Rightarrow>
               wf_dict r \<and> map_of d ''total_currencies'' = Some (JNum (of_nat (length r)))
           | _ \<Rightarrow> False)"
    by (simp_all add: is_snapshot_def wf_dict_def)
  from rest obtain r where r: "map_of d ''rates'' = Some (JDict r)" "distinct (map fst r)"
      "map_of d ''total_currencies'' = Some (JNum (of_nat (length r)))"
    by (auto split: option.splits json.splits simp: wf_dict_def)
  have "''error'' \<notin> set (map fst d)" unfolding keys by simp
  with d wf keys r
  show "\<exists>d r. cached_data s = JDict d \<and> distinct (map fst d) \<and>
           set (map fst d) = {''rates'', ''last_updated'', ''total_currencies''} \<and>
           ''error'' \<notin> set (map fst d) \<and>
           map_of d ''rates'' = Some (JDict r) \<and> distinct (map fst r) \<and>
           map_of d ''total_currencies'' = Some (JNum (of_nat (length r)))"
    by blast
qed

text \<open>The initial state, the state after a successful first call, and the state with a snapshot.\<close>

theorem snapshot_invariant_witness:
  "cache_inv (init 10 300)
   \<and> cache_inv (snd (get_exchange_rates 1000 ''2024-01-01T12:00:00'' (Returned sample_response)
                       (init 10 300)))
   \<and> cache_inv warm_state \<and> cached_data warm_state \<noteq> JNull
   \<and> (\<exists>d r. cached_data warm_state = JDict d \<and> distinct (map fst d) \<and>
           set (map fst d) = {''rates'', ''last_updated'', ''total_currencies''} \<and>
           ''error'' \<notin> set (map fst d) \<and>
           map_of d ''rates'' = Some (JDict r) \<and> distinct (map fst r) \<and>
           map_of d ''total_currencies'' = Some (JNum (of_nat (length r))))"
proof -
  note inst1 = snapshot_invariant[of 10 300 "init 10 300" 1000 "''2024-01-01T12:00:00''"
      "Returned sample_response"]
  note inst2 = snapshot_invariant[of 10 300 warm_state 1000 "''2024-01-01T12:00:00''"
      "Returned sample_response"]
  have w: "cache_inv warm_state" "cached_data warm_state \<noteq> JNull"
    using sample_snapshot_is_snapshot
    by (auto simp: cache_inv_def warm_state_simps dest: is_snapshot_not_null)
  from inst1 have a: "cache_inv (init 10 300)"
    "cache_inv (snd (get_exchange_rates 1000 ''2024-01-01T12:00:00'' (Returned sample_response)
                       (init 10 300)))"
    by blast+
  from inst2 w have "\<exists>d r. cached_data warm_state = JDict d \<and> distinct (map fst d) \<and>
           set (map fst d) = {''rates'', ''last_updated'', ''total_currencies''} \<and>
           ''error'' \<notin> set (map fst d) \<and>
           map_of d ''rates'' = Some (JDict r) \<and> distinct (map fst r) \<and>
           map_of d ''total_currencies'' = Some (JNum (of_nat (length r)))"
    by blast
  with a w show ?thesis by blast
qed

text \<open>
  C10. Once \<open>cached_data\<close> holds a snapshot (which is what a successful fetch leaves), it
  holds one after any sequence \<open>cs\<close> of further calls, whoever makes them and whatever the
  upstream does; every later call that returns, returns a snapshot, which has no key
  \<^verbatim>\<open>error\<close>. Consequently \<^verbatim>\<open>/health\<close> never answers \<^verbatim>\<open>degraded\<close> from then on: its answer
  is \<^verbatim>\<open>healthy\<close> with status 200, or \<^verbatim>\<open>unhealthy\<close> with status 500 when the call raised;
  and when the upstream fails with a fetch failure it is \<^verbatim>\<open>healthy\<close> with status 200,
  on stale data.
\<close>

theorem no_error_after_first_success:
  assumes populated: "is_snapshot (cached_data s)"
  shows "is_snapshot (cached_data (run_calls cs s))
     \<and> (get_exchange_rates t now up (run_calls cs s) = (Inr d, s') \<longrightarrow>
          is_snapshot d \<and> py_contains ''error'' d = Inr False)
     \<and> fst (health_check t now stamp version up (run_calls cs s))
          \<noteq> (health_body ''degraded'' stamp version, 200)
     \<and> (fst (health_check t now stamp version up (run_calls cs s))
            = (health_body ''healthy'' stamp version, 200) \<or>
         (\<exists>e. fst (get_exchange_rates t now up (count_request ''/health'' (run_calls cs s))) = Inl e \<and>
              fst (health_check t now stamp version up (run_calls cs s)) = (Unhealthy e stamp, 500)))
     \<and> (fetch_error up = Some msg \<longrightarrow>
          fst (health_check t now stamp version up (run_calls cs s))
            = (health_body ''healthy'' stamp version, 200))"
proof -
  let ?s = "run_calls cs s"
  have snap: "is_snapshot (cached_data ?s)" by (rule run_calls_keeps_snapshot[OF populated])
  have r: "get_exchange_rates t now up ?s = (Inr d, s') \<longrightarrow>
          is_snapshot d \<and> py_contains ''error'' d = Inr False"
    using get_snapshot_result[OF snap] is_snapshot_no_error by blast
  note h = health_check_snapshot[OF snap, of t now stamp version up]
  then have ne: "fst (health_check t now stamp version up ?s)
          \<noteq> (health_body ''degraded'' stamp version, 200)"
    by (auto simp: health_body_def)
  have f: "fetch_error up = Some msg \<longrightarrow>
          fst (health_check t now stamp version up ?s) = (health_body ''healthy'' stamp version, 200)"
    using health_check_failure[OF snap] by blast
  from snap r ne h f show ?thesis by blast
qed

text \<open>The state with a snapshot after two failed calls, then a health check with a failing upstream.\<close>

theorem no_error_after_first_success_witness:
  "is_snapshot (cached_data warm_state)
   \<and> is_snapshot (cached_data (run_calls
         [(None, 1300, ''2024-01-01T12:05:00'', Raised ''read timed out''),
          (Some ''/api/rates'', 1400, ''2024-01-01T12:06:40'', Raised ''connection refused'')]
         warm_state))
   \<and> fetch_error (Raised ''read timed out'') = Some ''read timed out''
   \<and> fst (health_check 1500 ''2024-01-01T12:08:20'' ''2024-01-01T12:08:21'' ''1.0.0''
         (Raised ''read timed out'')
         (run_calls
           [(None, 1300, ''2024-01-01T12:05:00'', Raised ''read timed out''),
            (Some ''/api/rates'', 1400, ''2024-01-01T12:06:40'', Raised ''connection refused'')]
           warm_state))
       = (health_body ''healthy'' ''2024-01-01T12:08:21'' ''1.0.0'', 200)"
proof -
  have h1: "is_snapshot (cached_data warm_state)"
    by (simp add: warm_state_simps sample_snapshot_is_snapshot)
  have h2: "fetch_error (Raised ''read timed out'') = Some ''read timed out''" by simp
  note inst = no_error_after_first_success[OF h1,
      of "[(None, 1300, ''2024-01-01T12:05:00'', Raised ''read timed out''),
           (Some ''/api/rates'', 1400, ''2024-01-01T12:06:40'', Raised ''connection refused'')]"
         1500 "''2024-01-01T12:08:20''" "Raised ''read timed out''" JNull warm_state
         "''2024-01-01T12:08:21''" "''1.0.0''" "''read timed out''"]
  from inst h1 h2 show ?thesis by blast
qed

end
